theory Spec2Isabelle
  imports Complex_Main
begin

section \<open>Kernel objects of parcels/kernel.py\<close>

text \<open>
  The development follows \<^verbatim>\<open>src/parcels/kernel.py\<close>.  A \<^verbatim>\<open>Kernel\<close> wraps a user
  function that is run once per particle and sub-step.  Python objects become records and
  datatypes, every exception that the source can raise by itself becomes a value of
  \<open>error\<close>, and the collaborators of the class that live outside the file (the code
  generators, the parser, the interpreter's \<^verbatim>\<open>exec\<close>, the clock) are fields of an
  environment record \<open>env\<close>.
\<close>

subsection \<open>Errors\<close>

text \<open>
  Modelled from the spec: kernel.py imports the three field-access conditions from
  \<^verbatim>\<open>parcels.field\<close>, but the file under src does not define them.  The spec speaks of
  three typed conditions and of "any other raised condition"; they are sibling classes,
  none derived from another.  An exception object raised by user code is one of the
  three, or any other instance of \<^verbatim>\<open>Exception\<close>, kept as its class name.  Each carries
  its message.
\<close>

datatype pyexception =
    FieldOutOfBoundError string
  | FieldOutOfBoundSurfaceError string
  | TimeExtrapolationError string
  | OtherException string string

text \<open>
  What a method of \<^verbatim>\<open>Kernel\<close> can raise: the built-in exceptions of its own statements,
  the rejection of the code generator, and an exception of user code that is not caught.
\<close>

datatype error =
    AttributeError
  | TypeError
  | IndexError
  | KeyError
  | OSError
  | AssertionError
  | CodeGenerationError
  | UserException pyexception

subsection \<open>Syntax trees and function objects\<close>

text \<open>
  \<^verbatim>\<open>ast.arguments\<close>: the named positional parameters, and the starred ones.
  \<^verbatim>\<open>inspect.getfullargspec(f).args\<close> lists the named positional parameters only.
\<close>

datatype arguments =
  Arguments (arg_names: "string list") (vararg: "string option") (kwarg: "string option")

text \<open>
  A statement node.  \<^verbatim>\<open>FunctionDef\<close> carries the fields that \<^verbatim>\<open>Kernel.merge\<close> reads and
  writes; any other statement is kept as its text.
\<close>

datatype stmt =
    FunctionDef string arguments "stmt list" "string list"
  | Stmt string

text \<open>
  A function object is either defined in a source file (it then has a name, an argument
  specification, \<^verbatim>\<open>__code__.co_varnames\<close> and a source text that \<^verbatim>\<open>inspect.getsource\<close>
  finds), or it was created by \<^verbatim>\<open>exec\<close> from a \<^verbatim>\<open>FunctionDef\<close> node (lines 115-118), in
  which case its name and parameters are those of the node and it has no source text.
\<close>

datatype pyfunction =
    Function string "string list" "string list" string
  | Compiled string arguments "stmt list"

fun fn_name :: "pyfunction \<Rightarrow> string" where
  "fn_name (Function n a v s) = n"
| "fn_name (Compiled n a b) = n"

fun fn_args :: "pyfunction \<Rightarrow> string list" where
  "fn_args (Function n a v s) = a"
| "fn_args (Compiled n a b) = arg_names a"

fun getsource :: "pyfunction \<Rightarrow> error + string" where
  "getsource (Function n a v s) = Inr s"
| "getsource (Compiled n a b) = Inl OSError"

subsection \<open>Fields, field sets and particle types\<close>

text \<open>
  These classes are collaborators of the kernel; the records hold what kernel.py reads of
  them.  Of a field: the name it has in the generated code and the class name of its
  units (\<^verbatim>\<open>field.units.__class__.__name__\<close>).  Of a vector field: its components, of which
  \<^verbatim>\<open>W\<close> may be missing.  Of a particle type: its name, whether its particles run in
  compiled code, its cache key and the names of its variables.
\<close>

record field =
  ccode_name :: string
  units_class :: string

record vectorfield =
  vf_U :: field
  vf_V :: field
  vf_W :: "field option"

record fieldset =
  get_fields :: "field list"

record ptype =
  pt_name :: string
  uses_jit :: bool
  pt_cache_key :: string
  variables :: "string list"


subsection \<open>The environment\<close>

text \<open>
  What the generator hands back to \<^verbatim>\<open>Kernel.__init__\<close>: the C text of the kernel and the
  three argument catalogues (ordered dictionaries, hence association lists).
\<close>

record codegen_out =
  kernel_ccode :: string
  g_field_args :: "(string \<times> field) list"
  g_vector_field_args :: "(string \<times> vectorfield) list"
  g_const_args :: "(string \<times> real) list"

text \<open>
  \<^verbatim>\<open>MPI\<close> is \<^verbatim>\<open>None\<close> when mpi4py is missing.  Otherwise the process has a rank, and
  \<^verbatim>\<open>bcast\<close> returns the value sent by rank 0 (on rank 0, its own argument).
\<close>

datatype mpi = NoMPI | MPI nat string

record env =
  parse :: "string \<Rightarrow> stmt list"
  user_ctx :: "string \<Rightarrow> pyfunction option"
  exec_other :: "string \<Rightarrow> (string \<Rightarrow> pyfunction option) \<Rightarrow> string \<Rightarrow> pyfunction option"
  compiled_varnames :: "arguments \<Rightarrow> stmt list \<Rightarrow> string list"
  kernelgen :: "fieldset \<Rightarrow> ptype \<Rightarrow> stmt \<Rightarrow> string list option \<Rightarrow> codegen_out option"
  loopgen :: "fieldset \<Rightarrow> ptype \<Rightarrow> string \<Rightarrow> (string \<times> field) list
                \<Rightarrow> (string \<times> real) list \<Rightarrow> string \<Rightarrow> string \<Rightarrow> string"
  files :: "string \<Rightarrow> string option"
  mpi_state :: mpi
  get_cache_dir :: string
  path_join :: "string \<Rightarrow> string \<Rightarrow> string"
  time_time :: real
  platform :: string

text \<open>
  \<^item> \<open>parse s\<close> is \<^verbatim>\<open>ast.parse(s).body\<close>; \<open>user_ctx\<close> is the caller's global namespace
    found at the bottom of the call stack (or the module's own, line 111);
    \<open>exec_other\<close> gives the bindings after \<^verbatim>\<open>exec\<close> of a statement other than a
    \<^verbatim>\<open>def\<close>; \<open>compiled_varnames\<close> is \<^verbatim>\<open>co_varnames\<close> of a function made by \<^verbatim>\<open>exec\<close>.
    The parser, \<^verbatim>\<open>compile\<close> and \<^verbatim>\<open>exec\<close> are taken to succeed.
  \<^item> \<open>kernelgen\<close> and \<open>loopgen\<close> are \<^verbatim>\<open>KernelGenerator(fieldset, ptype).generate\<close> and
    \<^verbatim>\<open>LoopGenerator(fieldset, ptype).generate\<close>.  The kernel generator rejects syntax it
    does not support: \<open>None\<close> stands for that exception.
  \<^item> \<open>files\<close> is the file system as \<^verbatim>\<open>path.isfile\<close> and \<^verbatim>\<open>open(..).read()\<close> see it.
  \<^item> \<open>time_time\<close> is the value \<^verbatim>\<open>time.time()\<close> returns during the call that is modelled;
    two calls made at different moments are two environments that differ there.
\<close>

fun co_varnames :: "env \<Rightarrow> pyfunction \<Rightarrow> string list" where
  "co_varnames E (Function n a v s) = v"
| "co_varnames E (Compiled n a b) = compiled_varnames E a b"

subsection \<open>String helpers\<close>

text \<open>\<^verbatim>\<open>sep.join(xs)\<close>.\<close>

fun join :: "string \<Rightarrow> string list \<Rightarrow> string" where
  "join sep [] = []"
| "join sep [x] = x"
| "join sep (x # y # ys) = x @ sep @ join sep (y # ys)"

text \<open>\<^verbatim>\<open>string.split('\n')\<close>: always at least one piece.\<close>

fun split_nl :: "string \<Rightarrow> string list" where
  "split_nl [] = [[]]"
| "split_nl (c # cs) =
     (if c = CHR 0x0A then [] # split_nl cs
      else (case split_nl cs of [] \<Rightarrow> [[c]] | l # ls \<Rightarrow> (c # l) # ls))"

text \<open>The characters that \<^verbatim>\<open>\s\<close> matches, among the ASCII ones.\<close>

definition is_space :: "char \<Rightarrow> bool" where
  "is_space c = (let n = (of_char c :: nat) in (9 \<le> n \<and> n \<le> 13) \<or> (28 \<le> n \<and> n \<le> 32))"

text \<open>\<^verbatim>\<open>l.replace(old, '', 1)\<close> for a non-empty \<open>old\<close>: the first occurrence goes.\<close>

fun remove_first :: "string \<Rightarrow> string \<Rightarrow> string" where
  "remove_first old [] = []"
| "remove_first old (c # cs) =
     (if take (length old) (c # cs) = old then drop (length old) (c # cs)
      else c # remove_first old cs)"

text \<open>\<^verbatim>\<open>fix_indentation\<close>, lines 49-55.\<close>

definition fix_indentation :: "string \<Rightarrow> string" where
  "fix_indentation string =
     (let lines = split_nl string;
          indent = takeWhile is_space (case lines of [] \<Rightarrow> [] | l # ls \<Rightarrow> l)
      in join [CHR 0x0A] (if indent \<noteq> [] then map (remove_first indent) lines else lines))"

text \<open>Decimal digits of a natural number, as \<^verbatim>\<open>"%d"\<close> prints them.\<close>

fun show_nat :: "nat \<Rightarrow> string" where
  "show_nat n = (if n < 10 then [''0123456789'' ! n] else show_nat (n div 10) @ [''0123456789'' ! (n mod 10)])"

declare show_nat.simps [simp del]

text \<open>
  \<^verbatim>\<open>'%f' % x\<close> for \<open>x \<ge> 0\<close>: the value rounded to six decimals, the integer part, a
  point, and the six decimals with leading zeros.  The clock is read as a real number
  and the rounding is to the nearest millionth (halves go up).
\<close>

definition format_f :: "real \<Rightarrow> string" where
  "format_f x =
     (let n = nat \<lfloor>x * 1000000 + 1 / 2\<rfloor>;
          frac = show_nat (n mod 1000000)
      in show_nat (n div 1000000) @ ''.'' @ replicate (6 - length frac) CHR ''0'' @ frac)"


subsection \<open>MD5\<close>

text \<open>
  \<^verbatim>\<open>hashlib.md5\<close>, after RFC 1321, on bytes as natural numbers and 32-bit words as natural
  numbers below \<open>2\<^sup>3\<^sup>2\<close>: the table of the 64 steps (number, shift amount and sine
  constant), addition modulo \<open>2\<^sup>3\<^sup>2\<close>, complement and left rotation, the four round
  functions and the message index of each step, one step, the little-endian words of a
  block, the padding, and the digest in hexadecimal.  The characters of a \<open>string\<close> are
  bytes, which is what \<^verbatim>\<open>key.encode('utf-8')\<close> yields.
\<close>

definition md5_table :: "(nat \<times> nat \<times> nat) list" where
  "md5_table =
     [(0, 7, 3614090360), (1, 12, 3905402710), (2, 17, 606105819), (3, 22, 3250441966),
      (4, 7, 4118548399), (5, 12, 1200080426), (6, 17, 2821735955), (7, 22, 4249261313),
      (8, 7, 1770035416), (9, 12, 2336552879), (10, 17, 4294925233), (11, 22, 2304563134),
      (12, 7, 1804603682), (13, 12, 4254626195), (14, 17, 2792965006), (15, 22, 1236535329),
      (16, 5, 4129170786), (17, 9, 3225465664), (18, 14, 643717713), (19, 20, 3921069994),
      (20, 5, 3593408605), (21, 9, 38016083), (22, 14, 3634488961), (23, 20, 3889429448),
      (24, 5, 568446438), (25, 9, 3275163606), (26, 14, 4107603335), (27, 20, 1163531501),
      (28, 5, 2850285829), (29, 9, 4243563512), (30, 14, 1735328473), (31, 20, 2368359562),
      (32, 4, 4294588738), (33, 11, 2272392833), (34, 16, 1839030562), (35, 23, 4259657740),
      (36, 4, 2763975236), (37, 11, 1272893353), (38, 16, 4139469664), (39, 23, 3200236656),
      (40, 4, 681279174), (41, 11, 3936430074), (42, 16, 3572445317), (43, 23, 76029189),
      (44, 4, 3654602809), (45, 11, 3873151461), (46, 16, 530742520), (47, 23, 3299628645),
      (48, 6, 4096336452), (49, 10, 1126891415), (50, 15, 2878612391), (51, 21, 4237533241),
      (52, 6, 1700485571), (53, 10, 2399980690), (54, 15, 4293915773), (55, 21, 2240044497),
      (56, 6, 1873313359), (57, 10, 4264355552), (58, 15, 2734768916), (59, 21, 1309151649),
      (60, 6, 4149444226), (61, 10, 3174756917), (62, 15, 718787259), (63, 21, 3951481745)]"

definition add32 :: "nat \<Rightarrow> nat \<Rightarrow> nat" where
  "add32 x y = (x + y) mod 4294967296"

definition not32 :: "nat \<Rightarrow> nat" where
  "not32 x = 4294967295 - x"

definition rotl32 :: "nat \<Rightarrow> nat \<Rightarrow> nat" where
  "rotl32 x n = (x * 2 ^ n) mod 4294967296 + x div 2 ^ (32 - n)"

definition md5_F :: "nat \<Rightarrow> nat \<Rightarrow> nat \<Rightarrow> nat \<Rightarrow> nat" where
  "md5_F i b c d =
     (if i < 16 then or (and b c) (and (not32 b) d)
      else if i < 32 then or (and d b) (and (not32 d) c)
      else if i < 48 then xor (xor b c) d
      else xor c (or b (not32 d)))"

definition md5_g :: "nat \<Rightarrow> nat" where
  "md5_g i =
     (if i < 16 then i
      else if i < 32 then (5 * i + 1) mod 16
      else if i < 48 then (3 * i + 5) mod 16
      else (7 * i) mod 16)"

fun md5_step :: "nat list \<Rightarrow> nat \<times> nat \<times> nat \<times> nat \<Rightarrow> nat \<times> nat \<times> nat \<Rightarrow> nat \<times> nat \<times> nat \<times> nat" where
  "md5_step m (a, b, c, d) (i, s, k) =
     (d, add32 b (rotl32 (add32 (add32 (add32 (md5_F i b c d) a) k) (m ! md5_g i)) s), b, c)"

fun le_words :: "nat list \<Rightarrow> nat list" where
  "le_words (b0 # b1 # b2 # b3 # bs) = (b0 + 256 * b1 + 65536 * b2 + 16777216 * b3) # le_words bs"
| "le_words bs = []"

fun add_state :: "nat \<times> nat \<times> nat \<times> nat \<Rightarrow> nat \<times> nat \<times> nat \<times> nat \<Rightarrow> nat \<times> nat \<times> nat \<times> nat" where
  "add_state (a0, b0, c0, d0) (a, b, c, d) = (add32 a0 a, add32 b0 b, add32 c0 c, add32 d0 d)"

definition md5_chunk :: "nat \<times> nat \<times> nat \<times> nat \<Rightarrow> nat list \<Rightarrow> nat \<times> nat \<times> nat \<times> nat" where
  "md5_chunk h bs = add_state h (foldl (md5_step (le_words bs)) h md5_table)"

fun md5_chunks :: "nat \<times> nat \<times> nat \<times> nat \<Rightarrow> nat list \<Rightarrow> nat \<times> nat \<times> nat \<times> nat" where
  "md5_chunks h [] = h"
| "md5_chunks h (b # bs) = md5_chunks (md5_chunk h (take 64 (b # bs))) (drop 64 (b # bs))"

definition le_bytes4 :: "nat \<Rightarrow> nat list" where
  "le_bytes4 x = [x mod 256, x div 256 mod 256, x div 65536 mod 256, x div 16777216 mod 256]"

definition md5_pad :: "nat list \<Rightarrow> nat list" where
  "md5_pad bs =
     bs @ [128] @ replicate ((119 - length bs mod 64) mod 64) 0
     @ le_bytes4 ((8 * length bs) mod 4294967296)
     @ le_bytes4 ((8 * length bs) div 4294967296 mod 4294967296)"

definition hex_byte :: "nat \<Rightarrow> string" where
  "hex_byte b = [''0123456789abcdef'' ! (b div 16), ''0123456789abcdef'' ! (b mod 16)]"

fun state_bytes :: "nat \<times> nat \<times> nat \<times> nat \<Rightarrow> nat list" where
  "state_bytes (a, b, c, d) = le_bytes4 a @ le_bytes4 b @ le_bytes4 c @ le_bytes4 d"

definition md5_bytes :: "nat list \<Rightarrow> nat list" where
  "md5_bytes bs = state_bytes (md5_chunks (1732584193, 4023233417, 2562383102, 271733878) (md5_pad bs))"

definition md5_hex :: "string \<Rightarrow> string" where
  "md5_hex s = concat (map hex_byte (md5_bytes (map of_char s)))"

subsection \<open>The Kernel class\<close>

text \<open>
  The attributes that only the JIT branch of \<^verbatim>\<open>__init__\<close> sets (lines 133-166) are
  grouped; a kernel of an interpreted particle type does not have them.
\<close>

record jit_part =
  field_args :: "(string \<times> field) list"
  vector_field_args :: "(string \<times> vectorfield) list"
  const_args :: "(string \<times> real) list"
  ccode :: string
  src_file :: string
  lib_file :: string
  log_file :: string

record kernel =
  fieldset :: fieldset
  ptype :: ptype
  delete_cfiles :: bool
  funcname :: string
  funcvars :: "string list option"
  funccode :: string
  py_ast :: stmt
  pyfunc :: pyfunction
  name :: string
  jit :: "jit_part option"

text \<open>
  \<^verbatim>\<open>Kernel._cache_key\<close>, lines 179-184.  \<open>cache_key_text\<close> is the string that is hashed.
\<close>

definition field_keys :: "(string \<times> field) list \<Rightarrow> string" where
  "field_keys fa = join ''-'' (map (\<lambda>(n, f). n @ '':'' @ units_class f) fa)"

definition cache_key_text :: "string \<Rightarrow> ptype \<Rightarrow> (string \<times> field) list \<Rightarrow> real \<Rightarrow> string" where
  "cache_key_text nm pt fa now =
     nm @ pt_cache_key pt @ field_keys fa @ (''TIME:'' @ format_f now)"

definition cache_key_of :: "env \<Rightarrow> string \<Rightarrow> ptype \<Rightarrow> (string \<times> field) list \<Rightarrow> string" where
  "cache_key_of E nm pt fa = md5_hex (cache_key_text nm pt fa (time_time E))"

definition cache_key :: "env \<Rightarrow> kernel \<Rightarrow> error + string" where
  "cache_key E k =
     (case jit k of
        None \<Rightarrow> Inl AttributeError
      | Some j \<Rightarrow> Inr (cache_key_of E (name k) (ptype k) (field_args j)))"

text \<open>
  Lines 140-145: the components of every vector field join the field arguments, unless a
  field of that name is there already or the name is \<^verbatim>\<open>not_defined\<close> (which is also the
  name used for a missing \<^verbatim>\<open>W\<close>, so a missing \<^verbatim>\<open>W\<close> adds nothing).
\<close>

definition components :: "vectorfield \<Rightarrow> (string \<times> field) list" where
  "components f =
     [(ccode_name (vf_U f), vf_U f), (ccode_name (vf_V f), vf_V f)]
     @ (case vf_W f of None \<Rightarrow> [] | Some w \<Rightarrow> [(ccode_name w, w)])"

definition add_field_arg :: "(string \<times> field) list \<Rightarrow> string \<times> field \<Rightarrow> (string \<times> field) list" where
  "add_field_arg fa nf =
     (if fst nf \<notin> fst ` set fa then (if fst nf \<noteq> ''not_defined'' then fa @ [nf] else fa) else fa)"

definition add_vector_components ::
  "(string \<times> field) list \<Rightarrow> (string \<times> vectorfield) list \<Rightarrow> (string \<times> field) list" where
  "add_vector_components fa vfa = foldl (\<lambda>acc f. foldl add_field_arg acc (components f)) fa (map snd vfa)"

text \<open>Lines 155-166: the three file names.\<close>

definition basename_of :: "env \<Rightarrow> string \<Rightarrow> ptype \<Rightarrow> (string \<times> field) list \<Rightarrow> string" where
  "basename_of E nm pt fa =
     (case mpi_state E of
        MPI mpi_rank received \<Rightarrow>
          (if mpi_rank = 0 then path_join E (get_cache_dir E) (cache_key_of E nm pt fa) else received)
          @ ''_'' @ show_nat mpi_rank
      | NoMPI \<Rightarrow> path_join E (get_cache_dir E) (cache_key_of E nm pt fa @ ''_0''))"

definition lib_ext :: "env \<Rightarrow> string" where
  "lib_ext E = (if platform E = ''win32'' then ''dll'' else ''so'')"

text \<open>
  The JIT branch, lines 133-166.  It is the only place where the code generators are
  called.
\<close>

definition init_jit :: "env \<Rightarrow> string \<Rightarrow> kernel \<Rightarrow> error + kernel" where
  "init_jit E c_include k =
     (case kernelgen E (fieldset k) (ptype k) (py_ast k) (funcvars k) of
        None \<Rightarrow> Inl CodeGenerationError
      | Some g \<Rightarrow>
          (let fa = add_vector_components (g_field_args g) (g_vector_field_args g);
               c_include_str = (case files E c_include of Some txt \<Rightarrow> txt | None \<Rightarrow> c_include);
               cc = loopgen E (fieldset k) (ptype k) (funcname k) fa (g_const_args g)
                      (kernel_ccode g) c_include_str;
               basename = basename_of E (name k) (ptype k) fa
           in Inr (k\<lparr>jit := Some \<lparr>field_args = fa,
                                   vector_field_args = g_vector_field_args g,
                                   const_args = g_const_args g,
                                   ccode = cc,
                                   src_file = basename @ ''.c'',
                                   lib_file = basename @ ''.'' @ lib_ext E,
                                   log_file = basename @ ''.log''\<rparr>\<rparr>)))"

text \<open>
  Lines 73-120, one definition per attribute.  \<^verbatim>\<open>x or y\<close> on strings takes \<open>y\<close> when
  \<open>x\<close> is \<^verbatim>\<open>None\<close> or empty; an attribute of \<^verbatim>\<open>None\<close> is an \<^verbatim>\<open>AttributeError\<close>.
  Lines 80-91 only decide whether a warning is logged and are left out: the log is not
  part of the state (they read \<^verbatim>\<open>fieldset.W\<close>, which a field set has when this advection
  kernel is used on it).
\<close>

definition truthy :: "string option \<Rightarrow> bool" where
  "truthy s = (case s of None \<Rightarrow> False | Some t \<Rightarrow> t \<noteq> [])"

definition init_funcname :: "string option \<Rightarrow> pyfunction option \<Rightarrow> error + string" where
  "init_funcname fname pf =
     (if truthy fname then Inr (the fname)
      else (case pf of None \<Rightarrow> Inl AttributeError | Some f \<Rightarrow> Inr (fn_name f)))"

definition init_funcvars :: "env \<Rightarrow> string list option \<Rightarrow> pyfunction option \<Rightarrow> string list option" where
  "init_funcvars E fvars pf =
     (case fvars of
        Some v \<Rightarrow> Some v
      | None \<Rightarrow> (case pf of Some f \<Rightarrow> Some (co_varnames E f) | None \<Rightarrow> None))"

definition init_funccode :: "string option \<Rightarrow> pyfunction option \<Rightarrow> error + string" where
  "init_funccode fcode pf =
     (if truthy fcode then Inr (the fcode)
      else (case pf of None \<Rightarrow> Inl AttributeError | Some f \<Rightarrow> getsource f))"

definition init_py_ast :: "env \<Rightarrow> stmt option \<Rightarrow> string \<Rightarrow> error + stmt" where
  "init_py_ast E ast fcode =
     (case ast of
        Some a \<Rightarrow> Inr a
      | None \<Rightarrow> (case parse E (fix_indentation fcode) of [] \<Rightarrow> Inl IndexError | a # rest \<Rightarrow> Inr a))"

text \<open>
  Lines 114-118: the node is executed in the user context and the function is looked up
  there under \<^verbatim>\<open>self.funcname\<close>.
\<close>

definition exec_stmt :: "env \<Rightarrow> stmt \<Rightarrow> string \<Rightarrow> pyfunction option" where
  "exec_stmt E a =
     (case a of
        FunctionDef n ar b d \<Rightarrow> (user_ctx E)(n \<mapsto> Compiled n ar b)
      | Stmt t \<Rightarrow> exec_other E t (user_ctx E))"

definition init_pyfunc :: "env \<Rightarrow> pyfunction option \<Rightarrow> stmt \<Rightarrow> string \<Rightarrow> error + pyfunction" where
  "init_pyfunc E pf a fname =
     (case pf of
        Some f \<Rightarrow> Inr f
      | None \<Rightarrow> (case exec_stmt E a fname of None \<Rightarrow> Inl KeyError | Some f \<Rightarrow> Inr f))"

text \<open>
  \<open>init_attrs\<close> is \<^verbatim>\<open>__init__\<close> up to line 120: every attribute that precedes the arity
  check.  (\<open>name\<close> is set on line 130, after the check; it is filled in by \<open>Kernel_init\<close>.)
\<close>

definition init_attrs ::
  "env \<Rightarrow> fieldset \<Rightarrow> ptype \<Rightarrow> pyfunction option \<Rightarrow> string option \<Rightarrow> string option
     \<Rightarrow> stmt option \<Rightarrow> string list option \<Rightarrow> bool \<Rightarrow> error + kernel" where
  "init_attrs E fs pt pf fname fcode ast fvars dc =
     (case init_funcname fname pf of Inl e \<Rightarrow> Inl e | Inr fname' \<Rightarrow>
      case init_funccode fcode pf of Inl e \<Rightarrow> Inl e | Inr fcode' \<Rightarrow>
      case init_py_ast E ast fcode' of Inl e \<Rightarrow> Inl e | Inr ast' \<Rightarrow>
      case init_pyfunc E pf ast' fname' of Inl e \<Rightarrow> Inl e | Inr pf' \<Rightarrow>
        Inr \<lparr>fieldset = fs, ptype = pt, delete_cfiles = dc, funcname = fname',
             funcvars = init_funcvars E fvars pf, funccode = fcode', py_ast = ast',
             pyfunc = pf', name = [], jit = None\<rparr>)"

text \<open>Lines 122-125: \<^verbatim>\<open>len(inspect.getfullargspec(self.pyfunc).args)\<close>.\<close>

definition numkernelargs :: "kernel \<Rightarrow> nat" where
  "numkernelargs k = length (fn_args (pyfunc k))"

text \<open>
  \<^verbatim>\<open>Kernel.__init__\<close>, lines 71-166: the attributes, the assertion of line 127, the name,
  and for a JIT particle type the generated code.
\<close>

definition Kernel_init ::
  "env \<Rightarrow> fieldset \<Rightarrow> ptype \<Rightarrow> pyfunction option \<Rightarrow> string option \<Rightarrow> string option
     \<Rightarrow> stmt option \<Rightarrow> string list option \<Rightarrow> string \<Rightarrow> bool \<Rightarrow> error + kernel" where
  "Kernel_init E fs pt pf fname fcode ast fvars c_include dc =
     (case init_attrs E fs pt pf fname fcode ast fvars dc of
        Inl e \<Rightarrow> Inl e
      | Inr k \<Rightarrow>
          if numkernelargs k \<noteq> 3 then Inl AssertionError
          else (let k' = k\<lparr>name := pt_name pt @ funcname k\<rparr>
                in if uses_jit (ptype k') then init_jit E c_include k' else Inr k'))"

text \<open>
  \<^verbatim>\<open>Kernel.merge\<close>, lines 451-460.  \<^verbatim>\<open>.args\<close> and \<^verbatim>\<open>.body\<close> exist on a \<^verbatim>\<open>FunctionDef\<close>
  only, and \<^verbatim>\<open>+\<close> on the variable lists needs both to be lists.  The arguments of the
  constructor call are evaluated before it runs, so the \<^verbatim>\<open>TypeError\<close> comes first.
\<close>

definition merge :: "env \<Rightarrow> kernel \<Rightarrow> kernel \<Rightarrow> error + kernel" where
  "merge E self other =
     (case py_ast self of
        Stmt t \<Rightarrow> Inl AttributeError
      | FunctionDef n1 args1 body1 d1 \<Rightarrow>
          (case py_ast other of
             Stmt t \<Rightarrow> Inl AttributeError
           | FunctionDef n2 args2 body2 d2 \<Rightarrow>
               (let fname = funcname self @ funcname other;
                    func_ast = FunctionDef fname args1 (body1 @ body2) [];
                    dc = (delete_cfiles self \<and> delete_cfiles other)
                in (case (funcvars self, funcvars other) of
                      (Some v1, Some v2) \<Rightarrow>
                        Kernel_init E (fieldset self) (ptype self) None (Some fname)
                          (Some (funccode self @ funccode other)) (Some func_ast)
                          (Some (v1 @ v2)) [] dc
                    | _ \<Rightarrow> Inl TypeError))))"

text \<open>
  \<^verbatim>\<open>__add__\<close> and \<^verbatim>\<open>__radd__\<close>, lines 462-470.  The other operand is a Kernel (\<open>Inl\<close>) or
  a plain callable (\<open>Inr\<close>), which is first wrapped with the defaults of \<^verbatim>\<open>__init__\<close>.
\<close>

definition wrap :: "env \<Rightarrow> kernel \<Rightarrow> kernel + pyfunction \<Rightarrow> error + kernel" where
  "wrap E self operand =
     (case operand of
        Inl k \<Rightarrow> Inr k
      | Inr f \<Rightarrow> Kernel_init E (fieldset self) (ptype self) (Some f) None None None None [] True)"

definition add :: "env \<Rightarrow> kernel \<Rightarrow> kernel + pyfunction \<Rightarrow> error + kernel" where
  "add E self operand =
     (case wrap E self operand of Inl e \<Rightarrow> Inl e | Inr k \<Rightarrow> merge E self k)"



section \<open>Execution\<close>

subsection \<open>Particles\<close>

text \<open>
  \<^verbatim>\<open>ErrorCode\<close> of \<^verbatim>\<open>parcels.tools.error\<close>, with the members that kernel.py names.
\<close>

datatype ErrorCode =
    Success
  | Evaluate
  | Repeat
  | Delete
  | StopExecution
  | Error
  | ErrorOutOfBounds
  | ErrorThroughSurface
  | ErrorTimeExtrapolation

text \<open>
  A particle: time, step and state, the retained exception, the remaining variables of
  its particle type by name (floats are read as real numbers), and the particle type that
  \<^verbatim>\<open>getPType()\<close> returns.  Every variable listed by the particle type is an attribute of
  the particle; \<^verbatim>\<open>exception\<close> is a plain attribute and not a variable.
\<close>

record particle =
  time :: real
  dt :: real
  state :: ErrorCode
  exception :: "pyexception option"
  vars :: "string \<Rightarrow> real"
  getPType :: ptype

datatype pyval = Num real | Code ErrorCode

definition getattr :: "particle \<Rightarrow> string \<Rightarrow> pyval" where
  "getattr p n =
     (if n = ''time'' then Num (time p)
      else if n = ''dt'' then Num (dt p)
      else if n = ''state'' then Code (state p)
      else Num (vars p n))"

text \<open>
  \<^verbatim>\<open>setattr\<close> is only used to store back a value that \<open>getattr\<close> returned for the same
  name, so a number never meets \<^verbatim>\<open>state\<close> nor a code another name; those cases leave
  the particle as it is.
\<close>

fun setattr :: "particle \<Rightarrow> string \<Rightarrow> pyval \<Rightarrow> particle" where
  "setattr p n (Num x) =
     (if n = ''time'' then p\<lparr>time := x\<rparr>
      else if n = ''dt'' then p\<lparr>dt := x\<rparr>
      else if n = ''state'' then p
      else p\<lparr>vars := (vars p)(n := x)\<rparr>)"
| "setattr p n (Code c) = (if n = ''state'' then p\<lparr>state := c\<rparr> else p)"

text \<open>
  Modelled from the spec: the methods of the particle class, which is not under src.
  \<^verbatim>\<open>reset_state\<close> is "reset to Evaluate", \<^verbatim>\<open>delete\<close> is "mark Delete", and
  \<^verbatim>\<open>isComputed\<close> is the signal that the recovery action is complete: the orchestrator
  sets \<^verbatim>\<open>Success\<close> just before it calls the recovery kernel (line 431), and the signal is
  that the state still is \<^verbatim>\<open>Success\<close> afterwards.
\<close>

definition reset_state :: "particle \<Rightarrow> particle" where
  "reset_state p = p\<lparr>state := Evaluate\<rparr>"

definition delete :: "particle \<Rightarrow> particle" where
  "delete p = p\<lparr>state := Delete\<rparr>"

definition isComputed :: "particle \<Rightarrow> bool" where
  "isComputed p = (state p = Success)"

record pset =
  particles_a :: "particle list list"
  pset_fieldset :: fieldset

subsection \<open>The runtime\<close>

text \<open>
  What a call of a Python function on \<^verbatim>\<open>(particle, fieldset, time)\<close> does: it may change
  the particle in place, and it returns a value (\<^verbatim>\<open>None\<close> or a code) or raises.  A
  call is taken to end.
\<close>

datatype call_result = Return "ErrorCode option" | Raise pyexception

record runtime =
  call :: "pyfunction \<Rightarrow> particle \<Rightarrow> fieldset \<Rightarrow> real \<Rightarrow> particle \<times> call_result"
  next_dt :: "particle \<Rightarrow> real"
  native_loop :: "kernel \<Rightarrow> pset \<Rightarrow> real \<Rightarrow> real \<Rightarrow> error + pset"
  recovery_base_map :: "ErrorCode \<Rightarrow> pyfunction option"

text \<open>
  \<^item> \<open>call\<close> is the interpreter running a function object.
  \<^item> \<open>next_dt\<close> is the step size that \<^verbatim>\<open>particle.update_next_dt()\<close> computes.
  \<^item> \<open>native_loop\<close> is \<^verbatim>\<open>execute_jit\<close> (lines 220-268) as a whole: the assertion on the
    grids, the chunk bookkeeping of the fields and the compiled loop, which is opaque.
  \<^item> \<open>recovery_base_map\<close> is \<^verbatim>\<open>recovery_map\<close> of \<^verbatim>\<open>parcels.tools.error\<close>.
\<close>

text \<open>
  Modelled from the spec: \<^verbatim>\<open>update_next_dt\<close> is a method of the particle class, which is
  not under src.  It "recomputes the particle's next step size": the particle gets a new
  \<^verbatim>\<open>dt\<close>, which the runtime supplies, and nothing else changes.
\<close>

definition update_next_dt :: "runtime \<Rightarrow> particle \<Rightarrow> particle" where
  "update_next_dt R p = p\<lparr>dt := next_dt R p\<rparr>"

definition execute_jit :: "runtime \<Rightarrow> kernel \<Rightarrow> pset \<Rightarrow> real \<Rightarrow> real \<Rightarrow> error + pset" where
  "execute_jit R k ps endtime dt0 = native_loop R k ps endtime dt0"

subsection \<open>numpy\<close>

text \<open>
  \<^verbatim>\<open>np.sign\<close>, and \<^verbatim>\<open>np.isclose(a, b)\<close> with its default tolerances:
  \<^verbatim>\<open>absolute(a - b) <= atol + rtol * absolute(b)\<close>, \<^verbatim>\<open>rtol=1e-05\<close>, \<^verbatim>\<open>atol=1e-08\<close>.
\<close>

definition np_sign :: "real \<Rightarrow> real" where
  "np_sign x = (if x < 0 then - 1 else if x = 0 then 0 else 1)"

definition isclose :: "real \<Rightarrow> real \<Rightarrow> bool" where
  "isclose a b = (\<bar>a - b\<bar> \<le> 1 / 100000000 + (1 / 100000) * \<bar>b\<bar>)"


subsection \<open>The interpreted pass: execute_python\<close>

text \<open>
  Lines 300-301 and 348-350.  \<^verbatim>\<open>p_var_back\<close> is a dictionary from variable names to
  values.  The source creates it once per pass; every key that the roll-back reads was
  written by the back-up of the same iteration, so the model starts each back-up from
  the empty dictionary.
\<close>

definition backup_vars :: "particle \<Rightarrow> string list \<Rightarrow> (string \<Rightarrow> pyval option) \<Rightarrow> string \<Rightarrow> pyval option" where
  "backup_vars p names back = foldl (\<lambda>b n. b(n \<mapsto> getattr p n)) back names"

definition restore_var :: "(string \<Rightarrow> pyval option) \<Rightarrow> particle \<Rightarrow> string \<Rightarrow> particle" where
  "restore_var back q n =
     (if n \<noteq> ''dt'' \<and> n \<noteq> ''state''
      then (case back n of Some v \<Rightarrow> setattr q n v | None \<Rightarrow> q)
      else q)"

definition restore_vars :: "(string \<Rightarrow> pyval option) \<Rightarrow> string list \<Rightarrow> particle \<Rightarrow> particle" where
  "restore_vars back names p = foldl (restore_var back) p names"

text \<open>The \<^verbatim>\<open>except\<close> clauses of lines 316-327, in their order.\<close>

fun exception_code :: "pyexception \<Rightarrow> ErrorCode" where
  "exception_code (FieldOutOfBoundError m) = ErrorOutOfBounds"
| "exception_code (FieldOutOfBoundSurfaceError m) = ErrorThroughSurface"
| "exception_code (TimeExtrapolationError m) = ErrorTimeExtrapolation"
| "exception_code (OtherException c m) = Error"

text \<open>
  The \<^verbatim>\<open>try\<close> statement, lines 302-327: the particle after it and the outcome \<^verbatim>\<open>res\<close>.
\<close>

definition invoke :: "runtime \<Rightarrow> pyfunction \<Rightarrow> fieldset \<Rightarrow> real \<Rightarrow> particle \<Rightarrow> particle \<times> ErrorCode" where
  "invoke R f fs pdt_prekernels p =
     (let p1 = p\<lparr>dt := pdt_prekernels\<rparr>;
          state_prev = state p1
      in (case call R f p1 fs (time p1) of
            (p2, Return r) \<Rightarrow>
              (let res = (case r of None \<Rightarrow> Success | Some c \<Rightarrow> c);
                   res1 = (if res = Success \<and> state p2 \<noteq> state_prev then state p2 else res);
                   res2 = (if res1 = Success \<and> \<not> isclose (dt p2) pdt_prekernels then Repeat else res1)
               in (p2, res2))
          | (p2, Raise e) \<Rightarrow> (p2\<lparr>exception := Some e\<rparr>, exception_code e)))"

text \<open>
  One iteration of the \<^verbatim>\<open>while\<close> loop, lines 300-356: the particle, the new
  \<^verbatim>\<open>dt_pos\<close>, and whether the iteration ends in \<^verbatim>\<open>break\<close>.
\<close>

definition loop_body ::
  "runtime \<Rightarrow> pyfunction \<Rightarrow> fieldset \<Rightarrow> ptype \<Rightarrow> real \<Rightarrow> real \<Rightarrow> real \<Rightarrow> particle
     \<Rightarrow> particle \<times> real \<times> bool" where
  "loop_body R f fs pt endtime dt0 dt_pos p =
     (let sign_dt = np_sign dt0;
          p_var_back = backup_vars p (variables pt) Map.empty;
          (p1, res) = invoke R f fs (sign_dt * dt_pos) p
      in if res = Success \<or> res = Delete
         then (let p2 = p1\<lparr>time := time p1 + dt p1\<rparr>;
                   p3 = update_next_dt R p2;
                   dt_pos1 = min \<bar>dt p3\<bar> \<bar>endtime - time p3\<bar>;
                   sign_end_part = np_sign (endtime - time p3);
                   res1 = (if res \<noteq> Delete \<and> \<not> isclose dt_pos1 0 \<and> sign_end_part = sign_dt
                           then Evaluate else res);
                   dt_pos2 = (if sign_end_part \<noteq> sign_dt then 0 else dt_pos1)
               in (p3\<lparr>state := res1\<rparr>, dt_pos2, isclose dt0 0))
         else (let p2 = restore_vars p_var_back (variables pt) (p1\<lparr>state := res\<rparr>);
                   dt_pos1 = min \<bar>dt p2\<bar> \<bar>endtime - time p2\<bar>;
                   sign_end_part = np_sign (endtime - time p2);
                   dt_pos2 = (if sign_end_part \<noteq> sign_dt then 0 else dt_pos1)
               in (p2, dt_pos2, True)))"

text \<open>The \<^verbatim>\<open>while\<close> loop of line 298.  It need not end: \<open>None\<close> is a loop that runs forever.\<close>

partial_function (option) particle_loop ::
  "runtime \<Rightarrow> pyfunction \<Rightarrow> fieldset \<Rightarrow> ptype \<Rightarrow> real \<Rightarrow> real \<Rightarrow> real \<Rightarrow> particle \<Rightarrow> particle option" where
  "particle_loop R f fs pt endtime dt0 dt_pos p =
     (if (state p = Evaluate \<or> state p = Repeat) \<or> isclose dt0 0
      then (case loop_body R f fs pt endtime dt0 dt_pos p of
              (p', dt_pos', brk) \<Rightarrow>
                if brk then Some p' else particle_loop R f fs pt endtime dt0 dt_pos' p')
      else Some p)"

text \<open>The body of the loop over the particles, lines 285-356.\<close>

definition execute_particle ::
  "runtime \<Rightarrow> pyfunction \<Rightarrow> fieldset \<Rightarrow> real \<Rightarrow> real \<Rightarrow> particle \<Rightarrow> particle option" where
  "execute_particle R f fs endtime dt0 p =
     (let sign_dt = np_sign dt0;
          pt = getPType p;
          sign_end_part = np_sign (endtime - time p);
          dt_pos = min \<bar>dt p\<bar> \<bar>endtime - time p\<bar>
      in if (sign_end_part \<noteq> sign_dt \<or> isclose dt_pos 0) \<and> \<not> isclose dt0 0
         then Some (if \<bar>time p\<bar> \<ge> \<bar>endtime\<bar> then p\<lparr>state := Success\<rparr> else p)
         else particle_loop R f fs pt endtime dt0 dt_pos p)"

fun execute_subfield ::
  "runtime \<Rightarrow> pyfunction \<Rightarrow> fieldset \<Rightarrow> real \<Rightarrow> real \<Rightarrow> particle list \<Rightarrow> particle list option" where
  "execute_subfield R f fs endtime dt0 [] = Some []"
| "execute_subfield R f fs endtime dt0 (p # ps) =
     (case execute_particle R f fs endtime dt0 p of
        None \<Rightarrow> None
      | Some p' \<Rightarrow> (case execute_subfield R f fs endtime dt0 ps of
                     None \<Rightarrow> None
                   | Some ps' \<Rightarrow> Some (p' # ps')))"

fun execute_subfields ::
  "runtime \<Rightarrow> pyfunction \<Rightarrow> fieldset \<Rightarrow> real \<Rightarrow> real \<Rightarrow> particle list list \<Rightarrow> particle list list option" where
  "execute_subfields R f fs endtime dt0 [] = Some []"
| "execute_subfields R f fs endtime dt0 (sub # subs) =
     (case execute_subfield R f fs endtime dt0 sub of
        None \<Rightarrow> None
      | Some sub' \<Rightarrow> (case execute_subfields R f fs endtime dt0 subs of
                       None \<Rightarrow> None
                     | Some subs' \<Rightarrow> Some (sub' # subs')))"

text \<open>
  \<^verbatim>\<open>execute_python\<close>, lines 270-356.  (Lines 277-280 turn the field data into arrays,
  which the model does not hold.)
\<close>

definition execute_python :: "runtime \<Rightarrow> kernel \<Rightarrow> pset \<Rightarrow> real \<Rightarrow> real \<Rightarrow> pset option" where
  "execute_python R k ps endtime dt0 =
     (case execute_subfields R (pyfunc k) (pset_fieldset ps) endtime dt0 (particles_a ps) of
        None \<Rightarrow> None
      | Some pss \<Rightarrow> Some (ps\<lparr>particles_a := pss\<rparr>))"

subsection \<open>The orchestrator: execute\<close>

text \<open>
  \<^verbatim>\<open>remove_deleted\<close>, lines 370-396: per sub-batch, the indices of the particles in state
  \<^verbatim>\<open>Delete\<close>, then \<^verbatim>\<open>pset.remove(indices)\<close>.  The report to the output file is not part of
  the state.
\<close>

definition local_indices :: "particle list \<Rightarrow> nat list" where
  "local_indices sub = filter (\<lambda>i. state (sub ! i) = Delete) [0..<length sub]"

text \<open>
  Modelled from the spec: \<^verbatim>\<open>remove\<close> is a method of the particle set, which is not under
  src.  It takes the particles at the given "indices per sub-batch" out of a sub-batch.
\<close>

definition remove_at :: "nat list \<Rightarrow> 'a list \<Rightarrow> 'a list" where
  "remove_at idx xs = map fst (filter (\<lambda>(x, i). i \<notin> set idx) (zip xs [0..<length xs]))"

definition remove_deleted :: "pset \<Rightarrow> pset" where
  "remove_deleted ps = ps\<lparr>particles_a := map (\<lambda>sub. remove_at (local_indices sub) sub) (particles_a ps)\<rparr>"

text \<open>Lines 398-403: the recovery map of this call.\<close>

definition resolve_recovery ::
  "runtime \<Rightarrow> (ErrorCode \<Rightarrow> pyfunction option) option \<Rightarrow> ErrorCode \<Rightarrow> pyfunction option" where
  "resolve_recovery R recovery =
     (let r = (case recovery of
                 None \<Rightarrow> Map.empty
               | Some r0 \<Rightarrow>
                   if r0 ErrorOutOfBounds \<noteq> None \<and> r0 ErrorThroughSurface = None
                   then r0(ErrorThroughSurface := r0 ErrorOutOfBounds) else r0)
      in recovery_base_map R ++ r)"

text \<open>Lines 410-413 and 443-446: one engine pass.\<close>

definition engine :: "runtime \<Rightarrow> kernel \<Rightarrow> pset \<Rightarrow> real \<Rightarrow> real \<Rightarrow> (error + pset) option" where
  "engine R k ps endtime dt0 =
     (if uses_jit (ptype k) then Some (execute_jit R k ps endtime dt0)
      else map_option Inr (execute_python R k ps endtime dt0))"

text \<open>Lines 420 and 449: the particles that threw errors.\<close>

definition is_error_particle :: "particle \<Rightarrow> bool" where
  "is_error_particle p = (state p \<noteq> Success \<and> state p \<noteq> Evaluate)"

definition error_particles :: "pset \<Rightarrow> particle list" where
  "error_particles ps = filter is_error_particle (concat (particles_a ps))"

text \<open>
  How a statement sequence ends: it runs through, it hits the \<^verbatim>\<open>return\<close> of line 426, or
  an exception leaves it.
\<close>

datatype 'a flow = Continue 'a | Returned 'a | Raised error

text \<open>The body of the \<^verbatim>\<open>for\<close> loop of line 424, for one error particle (lines 425-437).\<close>

definition recover_particle ::
  "runtime \<Rightarrow> (ErrorCode \<Rightarrow> pyfunction option) \<Rightarrow> fieldset \<Rightarrow> particle \<Rightarrow> particle flow" where
  "recover_particle R recovery_map fs p =
     (if state p = StopExecution then Returned p
      else if state p = Repeat then Continue (reset_state p)
      else (case recovery_map (state p) of
              Some recovery_kernel \<Rightarrow>
                (let p1 = p\<lparr>state := Success\<rparr>
                 in (case call R recovery_kernel p1 fs (time p1) of
                       (p2, Return r) \<Rightarrow> Continue (if isComputed p2 then reset_state p2 else p2)
                     | (p2, Raise e) \<Rightarrow> Raised (UserException e)))
            | None \<Rightarrow> Continue (delete p)))"

text \<open>
  The \<^verbatim>\<open>for\<close> loop of line 424.  \<^verbatim>\<open>error_particles\<close> holds references to the particles
  of the population, in the order of the population, and the loop changes them in place:
  that is a walk through the population that visits the particles selected on line 420
  or 449 and leaves the others alone.  A particle's state is not changed between the
  selection and its visit.
\<close>

definition visit ::
  "runtime \<Rightarrow> (ErrorCode \<Rightarrow> pyfunction option) \<Rightarrow> fieldset \<Rightarrow> particle \<Rightarrow> particle flow" where
  "visit R recovery_map fs p =
     (if is_error_particle p then recover_particle R recovery_map fs p else Continue p)"

fun recover_subfield ::
  "runtime \<Rightarrow> (ErrorCode \<Rightarrow> pyfunction option) \<Rightarrow> fieldset \<Rightarrow> particle list \<Rightarrow> particle list flow" where
  "recover_subfield R recovery_map fs [] = Continue []"
| "recover_subfield R recovery_map fs (p # ps) =
     (case visit R recovery_map fs p of
        Continue p' \<Rightarrow>
          (case recover_subfield R recovery_map fs ps of
             Continue ps' \<Rightarrow> Continue (p' # ps')
           | Returned ps' \<Rightarrow> Returned (p' # ps')
           | Raised e \<Rightarrow> Raised e)
      | Returned p' \<Rightarrow> Returned (p' # ps)
      | Raised e \<Rightarrow> Raised e)"

fun recover_subfields ::
  "runtime \<Rightarrow> (ErrorCode \<Rightarrow> pyfunction option) \<Rightarrow> fieldset \<Rightarrow> particle list list \<Rightarrow> particle list list flow" where
  "recover_subfields R recovery_map fs [] = Continue []"
| "recover_subfields R recovery_map fs (sub # subs) =
     (case recover_subfield R recovery_map fs sub of
        Continue sub' \<Rightarrow>
          (case recover_subfields R recovery_map fs subs of
             Continue subs' \<Rightarrow> Continue (sub' # subs')
           | Returned subs' \<Rightarrow> Returned (sub' # subs')
           | Raised e \<Rightarrow> Raised e)
      | Returned sub' \<Rightarrow> Returned (sub' # subs)
      | Raised e \<Rightarrow> Raised e)"

text \<open>
  The \<^verbatim>\<open>while\<close> loop of lines 422-449, entered with the population as it is when the
  error particles are collected.  \<open>None\<close> is a loop that does not end; \<open>Inl\<close> is an
  exception that leaves \<^verbatim>\<open>execute\<close>; \<open>Inr\<close> is the population when \<^verbatim>\<open>execute\<close> returns.
\<close>

partial_function (option) recovery_loop ::
  "runtime \<Rightarrow> kernel \<Rightarrow> (ErrorCode \<Rightarrow> pyfunction option) \<Rightarrow> real \<Rightarrow> real \<Rightarrow> pset \<Rightarrow> (error + pset) option" where
  "recovery_loop R k recovery_map endtime dt0 ps =
     (if error_particles ps = [] then Some (Inr ps)
      else (case recover_subfields R recovery_map (fieldset k) (particles_a ps) of
              Raised e \<Rightarrow> Some (Inl e)
            | Returned pss \<Rightarrow> Some (Inr (ps\<lparr>particles_a := pss\<rparr>))
            | Continue pss \<Rightarrow>
                (case engine R k (remove_deleted (ps\<lparr>particles_a := pss\<rparr>)) endtime dt0 of
                   None \<Rightarrow> None
                 | Some (Inl e) \<Rightarrow> Some (Inl e)
                 | Some (Inr ps') \<Rightarrow> recovery_loop R k recovery_map endtime dt0 ps')))"

text \<open>
  \<^verbatim>\<open>Kernel.execute\<close>, lines 358-449.  (The warning of line 367 and the chunk markers of
  lines 405-407 are not part of the state.)
\<close>

definition execute ::
  "runtime \<Rightarrow> kernel \<Rightarrow> pset \<Rightarrow> real \<Rightarrow> real \<Rightarrow> (ErrorCode \<Rightarrow> pyfunction option) option
     \<Rightarrow> (error + pset) option" where
  "execute R k ps endtime dt0 recovery =
     (let ps0 = ps\<lparr>particles_a := map (map reset_state) (particles_a ps)\<rparr>;
          recovery_map = resolve_recovery R recovery
      in (case engine R k ps0 endtime dt0 of
            None \<Rightarrow> None
          | Some (Inl e) \<Rightarrow> Some (Inl e)
          | Some (Inr ps1) \<Rightarrow> recovery_loop R k recovery_map endtime dt0 (remove_deleted ps1)))"


section \<open>Concrete inputs\<close>

text \<open>
  Three user functions, a parser that knows their sources, and an environment without
  MPI.
\<close>

definition ex_A :: pyfunction where
  "ex_A = Function ''A'' [''p'', ''f'', ''t''] [''p'', ''f'', ''t''] ''def A(p, f, t): p.x = 1''"



definition ex_args3 :: arguments where
  "ex_args3 = Arguments [''p'', ''f'', ''t''] None None"

definition ex_parse :: "string \<Rightarrow> stmt list" where
  "ex_parse s =
     (if s = ''def A(p, f, t): p.x = 1''
      then [FunctionDef ''A'' ex_args3 [Stmt ''p.x = 1''] []]
      else if s = ''def B(p, f, t): u = 2''
      then [FunctionDef ''B'' ex_args3 [Stmt ''u = 2''] []]
      else if s = ''def two(p, f): pass''
      then [FunctionDef ''two'' (Arguments [''p'', ''f''] None None) [Stmt ''pass''] []]
      else [])"

definition ex_env :: env where
  "ex_env = \<lparr>parse = ex_parse, user_ctx = (\<lambda>n. None), exec_other = (\<lambda>t c. c),
             compiled_varnames = (\<lambda>a b. arg_names a),
             kernelgen = (\<lambda>fs pt a v. None),
             loopgen = (\<lambda>fs pt n fa ca kc ci. kc),
             files = (\<lambda>p. None), mpi_state = NoMPI, get_cache_dir = ''/tmp'',
             path_join = (\<lambda>a b. a @ ''/'' @ b), time_time = 1, platform = ''linux''\<rparr>"

definition ex_fs1 :: fieldset where
  "ex_fs1 = \<lparr>get_fields = [\<lparr>ccode_name = ''U'', units_class = ''GeographicPolar''\<rparr>]\<rparr>"


definition ex_pt1 :: ptype where
  "ex_pt1 = \<lparr>pt_name = ''P'', uses_jit = False, pt_cache_key = ''k1'',
             variables = [''lon'', ''time'', ''dt'', ''state'']\<rparr>"

definition ex_pt2 :: ptype where
  "ex_pt2 = \<lparr>pt_name = ''Q'', uses_jit = False, pt_cache_key = ''k2'',
             variables = [''time'', ''dt'', ''state'']\<rparr>"

text \<open>The kernels that \<^verbatim>\<open>Kernel(fieldset, ptype, pyfunc=...)\<close> builds from the two functions.\<close>

definition ex_kA :: kernel where
  "ex_kA = \<lparr>fieldset = ex_fs1, ptype = ex_pt1, delete_cfiles = True, funcname = ''A'',
            funcvars = Some [''p'', ''f'', ''t''], funccode = ''def A(p, f, t): p.x = 1'',
            py_ast = FunctionDef ''A'' ex_args3 [Stmt ''p.x = 1''] [],
            pyfunc = ex_A, name = ''PA'', jit = None\<rparr>"







text \<open>
  A kernel of a JIT particle type with one field argument, and a kernel built from
  another function of the same name: the syntax trees differ, the names do not.
\<close>

definition ex_ptj :: ptype where
  "ex_ptj = \<lparr>pt_name = ''J'', uses_jit = True, pt_cache_key = ''kj'',
             variables = [''lon'', ''time'', ''dt'', ''state'']\<rparr>"

definition ex_jit_part :: jit_part where
  "ex_jit_part = \<lparr>field_args = [(''U'', \<lparr>ccode_name = ''U'', units_class = ''GeographicPolar''\<rparr>)],
                  vector_field_args = [], const_args = [], ccode = ''/* A */'',
                  src_file = ''/tmp/x_0.c'', lib_file = ''/tmp/x_0.so'', log_file = ''/tmp/x_0.log''\<rparr>"

definition ex_jA :: kernel where
  "ex_jA = ex_kA\<lparr>ptype := ex_ptj, name := ''JA'', jit := Some ex_jit_part\<rparr>"

definition ex_jA' :: kernel where
  "ex_jA' = ex_jA\<lparr>funccode := ''def A(p, f, t): p.x = 5'',
                  py_ast := FunctionDef ''A'' ex_args3 [Stmt ''p.x = 5''] []\<rparr>"

text \<open>
  User functions for the runtime: one that moves the particle and then leaves the field
  (an out-of-bounds condition), one that deletes the particle, one that asks for a
  repetition, one that does nothing, and one that moves a particle back (a recovery
  kernel).  \<open>ex_call\<close> is what calling them does.
\<close>

definition ex_oob :: pyfunction where
  "ex_oob = Function ''oob'' [''particle'', ''fieldset'', ''time''] [''particle'', ''fieldset'', ''time'']
              ''def oob(particle, fieldset, time): ...''"

definition ex_del :: pyfunction where
  "ex_del = Function ''DeleteParticle'' [''particle'', ''fieldset'', ''time''] [''particle'', ''fieldset'', ''time'']
              ''def DeleteParticle(particle, fieldset, time): particle.delete()''"

definition ex_rep :: pyfunction where
  "ex_rep = Function ''rep'' [''particle'', ''fieldset'', ''time''] [''particle'', ''fieldset'', ''time'']
              ''def rep(particle, fieldset, time): return ErrorCode.Repeat''"

definition ex_nop :: pyfunction where
  "ex_nop = Function ''nop'' [''particle'', ''fieldset'', ''time''] [''particle'', ''fieldset'', ''time'']
              ''def nop(particle, fieldset, time): pass''"

definition ex_back :: pyfunction where
  "ex_back = Function ''back'' [''particle'', ''fieldset'', ''time''] [''particle'', ''fieldset'', ''time'']
              ''def back(particle, fieldset, time): particle.lon = 0''"

definition ex_call :: "pyfunction \<Rightarrow> particle \<Rightarrow> fieldset \<Rightarrow> real \<Rightarrow> particle \<times> call_result" where
  "ex_call f p fs t =
     (if fn_name f = ''oob''
      then (p\<lparr>time := time p + 7, vars := (vars p)(''lon'' := 99)\<rparr>, Raise (FieldOutOfBoundError ''lon''))
      else if fn_name f = ''DeleteParticle'' then (delete p, Return None)
      else if fn_name f = ''rep'' then (p, Return (Some Repeat))
      else if fn_name f = ''back'' then (p\<lparr>vars := (vars p)(''lon'' := 0)\<rparr>, Return None)
      else (p, Return None))"

definition ex_rt :: runtime where
  "ex_rt = \<lparr>call = ex_call, next_dt = dt, native_loop = (\<lambda>k ps e d. Inr ps),
            recovery_base_map = Map.empty\<rparr>"

definition ex_p :: particle where
  "ex_p = \<lparr>time = 0, dt = 1, state = Evaluate, exception = None, vars = (\<lambda>n. 0), getPType = ex_pt1\<rparr>"

definition ex_ps :: pset where
  "ex_ps = \<lparr>particles_a = [[ex_p]], pset_fieldset = ex_fs1\<rparr>"

text \<open>
  A particle that left the field, and a recovery map that sends such particles to the
  kernel that deletes them.
\<close>

definition ex_q :: particle where
  "ex_q = ex_p\<lparr>state := ErrorOutOfBounds\<rparr>"

definition ex_rmap :: "ErrorCode \<Rightarrow> pyfunction option" where
  "ex_rmap = [ErrorOutOfBounds \<mapsto> ex_del]"



text \<open>
  A kernel whose function always asks for a repetition, and the population after one
  pass of it with \<open>dt = 0\<close>.
\<close>

definition ex_kR :: kernel where
  "ex_kR = ex_kA\<lparr>pyfunc := ex_rep\<rparr>"

definition ex_ps_rep :: pset where
  "ex_ps_rep = \<lparr>particles_a = [[ex_p\<lparr>dt := 0, state := Repeat\<rparr>]], pset_fieldset = ex_fs1\<rparr>"

section \<open>Construction\<close>
















section \<open>Merging\<close>



















section \<open>Adding a plain callable\<close>







section \<open>The cache key\<close>

lemma show_nat_0: "show_nat 0 = ''0''"
  by (subst show_nat.simps) simp

lemma show_nat_1: "show_nat (Suc 0) = ''1''"
  by (subst show_nat.simps) simp

lemma show_nat_2: "show_nat 2 = ''2''"
  by (subst show_nat.simps) simp

lemma replicate_5: "replicate 5 c = [c, c, c, c, c]"
  by (simp add: eval_nat_numeral)

lemma format_f_1: "format_f 1 = ''1.000000''"
  by (simp add: format_f_def Let_def show_nat_0 show_nat_1 replicate_5)

lemma format_f_2: "format_f 2 = ''2.000000''"
  by (simp add: format_f_def Let_def show_nat_0 show_nat_2 replicate_5)

lemma replicate_numeral: "replicate (numeral k) x = x # replicate (pred_numeral k) x"
  by (simp add: numeral_eq_Suc)

text \<open>The model of MD5 agrees with the test suite of RFC 1321 on \<^verbatim>\<open>abc\<close>.\<close>

lemma md5_hex_abc: "md5_hex ''abc'' = ''900150983cd24fb0d6963f7d28e17f72''"
  by (simp add: md5_hex_def md5_bytes_def md5_pad_def le_bytes4_def md5_chunk_def md5_table_def
      md5_F_def md5_g_def add32_def not32_def rotl32_def hex_byte_def replicate_numeral)

lemma md5_hex_key_1:
  "md5_hex ''JAkjU:GeographicPolarTIME:1.000000'' = ''e97ae9e278915f9be1a2eccee03fa3f2''"
  by (simp add: md5_hex_def md5_bytes_def md5_pad_def le_bytes4_def md5_chunk_def md5_table_def
      md5_F_def md5_g_def add32_def not32_def rotl32_def hex_byte_def replicate_numeral)

lemma md5_hex_key_2:
  "md5_hex ''JAkjU:GeographicPolarTIME:2.000000'' = ''cabd631571729d2f50dc9ff558db4bc4''"
  by (simp add: md5_hex_def md5_bytes_def md5_pad_def le_bytes4_def md5_chunk_def md5_table_def
      md5_F_def md5_g_def add32_def not32_def rotl32_def hex_byte_def replicate_numeral)

lemma cache_key_text_jA:
  "cache_key_text (name ex_jA) (ptype ex_jA) (field_args ex_jit_part) 1 = ''JAkjU:GeographicPolarTIME:1.000000''"
  by (simp add: cache_key_text_def field_keys_def ex_jA_def ex_kA_def ex_jit_part_def ex_ptj_def format_f_1)

lemma cache_key_text_jA_later:
  "cache_key_text (name ex_jA) (ptype ex_jA) (field_args ex_jit_part) 2 = ''JAkjU:GeographicPolarTIME:2.000000''"
  by (simp add: cache_key_text_def field_keys_def ex_jA_def ex_kA_def ex_jit_part_def ex_ptj_def format_f_2)

lemma jit_jA: "jit ex_jA = Some ex_jit_part" "jit ex_jA' = Some ex_jit_part"
  "name ex_jA' = name ex_jA" "ptype ex_jA' = ptype ex_jA"
  by (simp_all add: ex_jA_def ex_jA'_def)

lemma cache_key_jA: "cache_key ex_env ex_jA = Inr ''e97ae9e278915f9be1a2eccee03fa3f2''"
  by (simp add: cache_key_def cache_key_of_def jit_jA ex_env_def cache_key_text_jA md5_hex_key_1)

lemma cache_key_jA': "cache_key ex_env ex_jA' = Inr ''e97ae9e278915f9be1a2eccee03fa3f2''"
  by (simp add: cache_key_def cache_key_of_def jit_jA ex_env_def cache_key_text_jA md5_hex_key_1)

lemma cache_key_jA_later:
  "cache_key (ex_env\<lparr>time_time := 2\<rparr>) ex_jA = Inr ''cabd631571729d2f50dc9ff558db4bc4''"
  by (simp add: cache_key_def cache_key_of_def jit_jA cache_key_text_jA_later md5_hex_key_2)

lemma field_keys_tags:
  "field_keys fa = join ''-'' (map (\<lambda>(n, u). n @ '':'' @ u) (map (\<lambda>(n, f). (n, units_class f)) fa))"
  by (simp add: field_keys_def case_prod_unfold comp_def)

lemma field_keys_cong:
  "map (\<lambda>(n, f). (n, units_class f)) fa1 = map (\<lambda>(n, f). (n, units_class f)) fa2
   \<Longrightarrow> field_keys fa1 = field_keys fa2"
  by (simp only: field_keys_tags)

text \<open>
  C1, as amended.  The identity is the MD5 digest of a text made of the kernel name, the
  cache key of the particle type, the names of the field arguments with the class names
  of their units, in the order of the dictionary, and the clock reading of the moment.
  Two computations give the same identity when these four agree; nothing else of the
  kernel, its syntax tree included, enters.  The text that
  is hashed changes when only the cache key of the particle type changes, and when only
  the clock reading changes (as far as \<^verbatim>\<open>%f\<close> prints it).
\<close>

theorem cache_key_determined:
  "(jit k1 = Some j1 \<and> jit k2 = Some j2 \<and> name k1 = name k2
      \<and> pt_cache_key (ptype k1) = pt_cache_key (ptype k2)
      \<and> map (\<lambda>(n, f). (n, units_class f)) (field_args j1)
          = map (\<lambda>(n, f). (n, units_class f)) (field_args j2)
      \<and> time_time E1 = time_time E2
    \<longrightarrow> cache_key E1 k1 = cache_key E2 k2
        \<and> cache_key E1 k1
            = Inr (md5_hex (cache_key_text (name k1) (ptype k1) (field_args j1) (time_time E1))))
   \<and> (pt_cache_key pt \<noteq> pt_cache_key pt'
        \<longrightarrow> cache_key_text nm pt fa t \<noteq> cache_key_text nm pt' fa t)
   \<and> (format_f t \<noteq> format_f t'
        \<longrightarrow> cache_key_text nm pt fa t \<noteq> cache_key_text nm pt fa t')"
proof (intro conjI impI)
  assume h: "jit k1 = Some j1 \<and> jit k2 = Some j2 \<and> name k1 = name k2
      \<and> pt_cache_key (ptype k1) = pt_cache_key (ptype k2)
      \<and> map (\<lambda>(n, f). (n, units_class f)) (field_args j1)
          = map (\<lambda>(n, f). (n, units_class f)) (field_args j2)
      \<and> time_time E1 = time_time E2"
  then have fk: "field_keys (field_args j1) = field_keys (field_args j2)"
    by (intro field_keys_cong) simp
  show "cache_key E1 k1 = cache_key E2 k2"
    using h fk by (simp add: cache_key_def cache_key_of_def cache_key_text_def)
  show "cache_key E1 k1
            = Inr (md5_hex (cache_key_text (name k1) (ptype k1) (field_args j1) (time_time E1)))"
    using h by (simp add: cache_key_def cache_key_of_def)
next
  assume "pt_cache_key pt \<noteq> pt_cache_key pt'"
  then show "cache_key_text nm pt fa t \<noteq> cache_key_text nm pt' fa t"
    by (simp add: cache_key_text_def)
next
  assume "format_f t \<noteq> format_f t'"
  then show "cache_key_text nm pt fa t \<noteq> cache_key_text nm pt fa t'"
    by (simp add: cache_key_text_def)
qed

theorem cache_key_determined_witness:
  "jit ex_jA = Some ex_jit_part \<and> jit ex_jA' = Some ex_jit_part \<and> name ex_jA = name ex_jA'
   \<and> ptype ex_jA = ptype ex_jA' \<and> py_ast ex_jA \<noteq> py_ast ex_jA'
   \<and> cache_key ex_env ex_jA = cache_key ex_env ex_jA'
   \<and> pt_cache_key ex_pt1 \<noteq> pt_cache_key ex_pt2
   \<and> cache_key_text ''A'' ex_pt1 [] 1 \<noteq> cache_key_text ''A'' ex_pt2 [] 1
   \<and> format_f 1 \<noteq> format_f 2
   \<and> cache_key_text ''A'' ex_pt1 [] 1 \<noteq> cache_key_text ''A'' ex_pt1 [] 2"
proof -
  have a: "jit ex_jA = Some ex_jit_part" "jit ex_jA' = Some ex_jit_part" "name ex_jA = name ex_jA'"
    "ptype ex_jA = ptype ex_jA'" "py_ast ex_jA \<noteq> py_ast ex_jA'"
    by (simp_all add: ex_jA_def ex_jA'_def ex_kA_def)
  have b: "pt_cache_key ex_pt1 \<noteq> pt_cache_key ex_pt2" by (simp add: ex_pt1_def ex_pt2_def)
  have c: "format_f 1 \<noteq> format_f 2" by (simp add: format_f_1 format_f_2)
  note t = cache_key_determined [where ?k1.0 = ex_jA and ?k2.0 = ex_jA' and ?j1.0 = ex_jit_part
      and ?j2.0 = ex_jit_part and ?E1.0 = ex_env and ?E2.0 = ex_env
      and pt = ex_pt1 and pt' = ex_pt2 and nm = "''A''" and fa = "[]" and t = 1 and t' = 2]
  from t a have 1: "cache_key ex_env ex_jA = cache_key ex_env ex_jA'" by simp
  from t b have 2: "cache_key_text ''A'' ex_pt1 [] 1 \<noteq> cache_key_text ''A'' ex_pt2 [] 1" by blast
  from t c have 3: "cache_key_text ''A'' ex_pt1 [] 1 \<noteq> cache_key_text ''A'' ex_pt1 [] 2" by blast
  show ?thesis using a b c 1 2 3 by simp
qed

text \<open>
  C1, as stated, fails twice.  The same kernel gets two identities at two clock readings
  of the same process, and two kernels with different syntax trees (and the same name,
  particle type and field arguments) get the same identity at the same clock reading.
\<close>

theorem cache_key_counterexample:
  "cache_key ex_env ex_jA = Inr ''e97ae9e278915f9be1a2eccee03fa3f2''
   \<and> cache_key (ex_env\<lparr>time_time := 2\<rparr>) ex_jA = Inr ''cabd631571729d2f50dc9ff558db4bc4''
   \<and> cache_key ex_env ex_jA \<noteq> cache_key (ex_env\<lparr>time_time := 2\<rparr>) ex_jA
   \<and> py_ast ex_jA \<noteq> py_ast ex_jA' \<and> cache_key ex_env ex_jA' = cache_key ex_env ex_jA"
proof -
  have "py_ast ex_jA \<noteq> py_ast ex_jA'"
    by (simp add: ex_jA_def ex_jA'_def ex_kA_def)
  then show ?thesis
    by (simp add: cache_key_jA cache_key_jA' cache_key_jA_later)
qed

section \<open>The interpreted pass\<close>

lemma getattr_setattr_other: "m \<noteq> n \<Longrightarrow> getattr (setattr q m v) n = getattr q n"
  by (cases v) (auto simp: getattr_def)

lemma getattr_setattr_same:
  "n \<noteq> ''dt'' \<Longrightarrow> n \<noteq> ''state'' \<Longrightarrow> getattr (setattr q n (getattr p n)) n = getattr p n"
  by (auto simp: getattr_def)

lemma state_setattr: "n \<noteq> ''state'' \<Longrightarrow> state (setattr q n v) = state q"
  by (cases v) auto

lemma exception_setattr: "exception (setattr q n v) = exception q"
  by (cases v) auto

lemma dt_setattr: "n \<noteq> ''dt'' \<Longrightarrow> dt (setattr q n v) = dt q"
  by (cases v) auto

lemma restore_var_keeps:
  "state (restore_var back q n) = state q" "exception (restore_var back q n) = exception q"
  "dt (restore_var back q n) = dt q"
  by (auto simp: restore_var_def state_setattr exception_setattr dt_setattr split: option.splits)

lemma restore_vars_keeps:
  "state (restore_vars back names q) = state q \<and> exception (restore_vars back names q) = exception q
   \<and> dt (restore_vars back names q) = dt q"
  unfolding restore_vars_def
  by (induction names arbitrary: q) (simp_all add: restore_var_keeps)

lemma backup_vars_snoc: "backup_vars p (ns @ [m]) back = (backup_vars p ns back)(m \<mapsto> getattr p m)"
  by (simp add: backup_vars_def)

lemma backup_vars_lookup:
  "n \<in> set names \<Longrightarrow> backup_vars p names back n = Some (getattr p n)"
  by (induction names rule: rev_induct) (auto simp: backup_vars_snoc)

lemma restore_vars_snoc: "restore_vars back (ns @ [m]) q = restore_var back (restore_vars back ns q) m"
  by (simp add: restore_vars_def)

lemma restore_vars_getattr:
  assumes "\<forall>m \<in> set ns. back m = Some (getattr p m)"
    and "n \<in> set ns" and "n \<noteq> ''dt''" and "n \<noteq> ''state''"
  shows "getattr (restore_vars back ns q) n = getattr p n"
  using assms(1,2)
proof (induction ns rule: rev_induct)
  case Nil
  then show ?case by simp
next
  case (snoc m ns)
  show ?case
  proof (cases "m = n")
    case True
    with snoc.prems assms(3,4) show ?thesis
      by (simp add: restore_vars_snoc restore_var_def getattr_setattr_same)
  next
    case False
    with snoc.prems have "n \<in> set ns" by simp
    with snoc have ih: "getattr (restore_vars back ns q) n = getattr p n" by simp
    from False show ?thesis
      by (simp add: restore_vars_snoc restore_var_def getattr_setattr_other ih split: option.splits)
  qed
qed

lemma rollback_getattr:
  assumes "n \<in> set names" and "n \<noteq> ''dt''" and "n \<noteq> ''state''"
  shows "getattr (restore_vars (backup_vars p names Map.empty) names q) n = getattr p n"
  using assms by (intro restore_vars_getattr) (simp_all add: backup_vars_lookup)

lemma loop_body_failed:
  assumes "invoke R f fs (np_sign dt0 * dt_pos) p = (p1, res)" and "res \<noteq> Success" and "res \<noteq> Delete"
  shows "\<exists>d. loop_body R f fs pt endtime dt0 dt_pos p
           = (restore_vars (backup_vars p (variables pt) Map.empty) (variables pt) (p1\<lparr>state := res\<rparr>), d, True)"
  using assms by (simp add: loop_body_def Let_def)

text \<open>
  C7.  When an invocation ends in an outcome other than \<^verbatim>\<open>Success\<close> and \<^verbatim>\<open>Delete\<close>, the
  iteration ends in \<^verbatim>\<open>break\<close>, every variable of the particle type except \<^verbatim>\<open>dt\<close> and
  \<^verbatim>\<open>state\<close> has the value it had when the iteration began, so the time has if it is
  such a variable, the state is the outcome, and the loop over this particle returns
  this particle.
\<close>

theorem failed_invocation_rolls_back:
  assumes "invoke R f fs (np_sign dt0 * dt_pos) p = (p1, res)"
    and "res \<noteq> Success" and "res \<noteq> Delete"
  shows "\<exists>p' d. loop_body R f fs pt endtime dt0 dt_pos p = (p', d, True)
           \<and> (\<forall>n \<in> set (variables pt). n \<noteq> ''dt'' \<and> n \<noteq> ''state'' \<longrightarrow> getattr p' n = getattr p n)
           \<and> (''time'' \<in> set (variables pt) \<longrightarrow> time p' = time p)
           \<and> state p' = res
           \<and> ((state p = Evaluate \<or> state p = Repeat) \<or> isclose dt0 0
                \<longrightarrow> particle_loop R f fs pt endtime dt0 dt_pos p = Some p')"
proof -
  let ?p' = "restore_vars (backup_vars p (variables pt) Map.empty) (variables pt) (p1\<lparr>state := res\<rparr>)"
  from loop_body_failed [OF assms] obtain d where
    lb: "loop_body R f fs pt endtime dt0 dt_pos p = (?p', d, True)" by blast
  have vars: "\<forall>n \<in> set (variables pt). n \<noteq> ''dt'' \<and> n \<noteq> ''state'' \<longrightarrow> getattr ?p' n = getattr p n"
    by (simp add: rollback_getattr)
  have tm: "''time'' \<in> set (variables pt) \<longrightarrow> time ?p' = time p"
  proof
    assume "''time'' \<in> set (variables pt)"
    then have "getattr ?p' ''time'' = getattr p ''time''" by (simp add: rollback_getattr)
    then show "time ?p' = time p" by (simp add: getattr_def)
  qed
  have st: "state ?p' = res" by (simp add: restore_vars_keeps)
  have lp: "(state p = Evaluate \<or> state p = Repeat) \<or> isclose dt0 0
              \<longrightarrow> particle_loop R f fs pt endtime dt0 dt_pos p = Some ?p'"
    by (subst particle_loop.simps) (simp add: lb)
  from lb vars tm st lp show ?thesis by blast
qed

lemma invoke_raise:
  assumes "call R f (p\<lparr>dt := d\<rparr>) fs (time p) = (p2, Raise e)"
  shows "invoke R f fs d p = (p2\<lparr>exception := Some e\<rparr>, exception_code e)"
  using assms by (simp add: invoke_def Let_def)

lemma exception_code_failed: "exception_code e \<noteq> Success \<and> exception_code e \<noteq> Delete"
  by (cases e) simp_all

text \<open>
  C8.  When the kernel raises, the iteration ends in \<^verbatim>\<open>break\<close> with the particle in the
  state that belongs to the class of the condition: \<^verbatim>\<open>ErrorOutOfBounds\<close>,
  \<^verbatim>\<open>ErrorThroughSurface\<close>, \<^verbatim>\<open>ErrorTimeExtrapolation\<close>, or \<^verbatim>\<open>Error\<close> for any other
  exception.  The particle keeps the condition object, and the loop over this particle
  returns this particle.
\<close>

theorem raised_condition_sets_error_state:
  assumes "call R f (p\<lparr>dt := np_sign dt0 * dt_pos\<rparr>) fs (time p) = (p2, Raise e)"
  shows "\<exists>p' d. loop_body R f fs pt endtime dt0 dt_pos p = (p', d, True)
           \<and> exception p' = Some e
           \<and> (\<forall>m. e = FieldOutOfBoundError m \<longrightarrow> state p' = ErrorOutOfBounds)
           \<and> (\<forall>m. e = FieldOutOfBoundSurfaceError m \<longrightarrow> state p' = ErrorThroughSurface)
           \<and> (\<forall>m. e = TimeExtrapolationError m \<longrightarrow> state p' = ErrorTimeExtrapolation)
           \<and> (\<forall>c m. e = OtherException c m \<longrightarrow> state p' = Error)
           \<and> ((state p = Evaluate \<or> state p = Repeat) \<or> isclose dt0 0
                \<longrightarrow> particle_loop R f fs pt endtime dt0 dt_pos p = Some p')"
proof -
  let ?q = "p2\<lparr>exception := Some e\<rparr>"
  let ?p' = "restore_vars (backup_vars p (variables pt) Map.empty) (variables pt)
               (?q\<lparr>state := exception_code e\<rparr>)"
  have inv: "invoke R f fs (np_sign dt0 * dt_pos) p = (?q, exception_code e)"
    using assms by (rule invoke_raise)
  from loop_body_failed [OF inv] exception_code_failed [of e] obtain d where
    lb: "loop_body R f fs pt endtime dt0 dt_pos p = (?p', d, True)" by blast
  have ex: "exception ?p' = Some e" by (simp add: restore_vars_keeps)
  have st: "state ?p' = exception_code e" by (simp add: restore_vars_keeps)
  have lp: "(state p = Evaluate \<or> state p = Repeat) \<or> isclose dt0 0
              \<longrightarrow> particle_loop R f fs pt endtime dt0 dt_pos p = Some ?p'"
    by (subst particle_loop.simps) (simp add: lb)
  from lb ex st lp show ?thesis by (intro exI [of _ ?p'] exI [of _ d]) auto
qed

lemma call_oob:
  "call ex_rt ex_oob (ex_p\<lparr>dt := np_sign 1 * 1\<rparr>) ex_fs1 (time ex_p)
     = (ex_p\<lparr>dt := 1, time := 7, vars := (vars ex_p)(''lon'' := 99)\<rparr>, Raise (FieldOutOfBoundError ''lon''))"
  by (simp add: ex_rt_def ex_call_def ex_oob_def ex_p_def np_sign_def)

lemma invoke_oob:
  "invoke ex_rt ex_oob ex_fs1 (np_sign 1 * 1) ex_p
     = (ex_p\<lparr>dt := 1, time := 7, vars := (vars ex_p)(''lon'' := 99), exception := Some (FieldOutOfBoundError ''lon'')\<rparr>,
        ErrorOutOfBounds)"
  using invoke_raise [OF call_oob] by simp

theorem failed_invocation_rolls_back_witness:
  "invoke ex_rt ex_oob ex_fs1 (np_sign 1 * 1) ex_p
     = (ex_p\<lparr>dt := 1, time := 7, vars := (vars ex_p)(''lon'' := 99), exception := Some (FieldOutOfBoundError ''lon'')\<rparr>,
        ErrorOutOfBounds)
   \<and> ErrorOutOfBounds \<noteq> Success \<and> ErrorOutOfBounds \<noteq> Delete
   \<and> ''time'' \<in> set (variables ex_pt1) \<and> ''lon'' \<in> set (variables ex_pt1) \<and> state ex_p = Evaluate
   \<and> (\<exists>p' d. loop_body ex_rt ex_oob ex_fs1 ex_pt1 10 1 1 ex_p = (p', d, True)
         \<and> getattr p' ''lon'' = Num 0 \<and> time p' = 0 \<and> state p' = ErrorOutOfBounds
         \<and> particle_loop ex_rt ex_oob ex_fs1 ex_pt1 10 1 1 ex_p = Some p')"
proof -
  have v: "''time'' \<in> set (variables ex_pt1)" "''lon'' \<in> set (variables ex_pt1)" "state ex_p = Evaluate"
    by (simp_all add: ex_pt1_def ex_p_def)
  have g: "getattr ex_p ''lon'' = Num 0" "time ex_p = 0"
    by (simp_all add: getattr_def ex_p_def)
  from failed_invocation_rolls_back [OF invoke_oob, of ex_pt1 10]
  obtain p' d where
    1: "loop_body ex_rt ex_oob ex_fs1 ex_pt1 10 1 1 ex_p = (p', d, True)"
    and 2: "\<forall>n \<in> set (variables ex_pt1). n \<noteq> ''dt'' \<and> n \<noteq> ''state'' \<longrightarrow> getattr p' n = getattr ex_p n"
    and 3: "''time'' \<in> set (variables ex_pt1) \<longrightarrow> time p' = time ex_p"
    and 4: "state p' = ErrorOutOfBounds"
    and 5: "(state ex_p = Evaluate \<or> state ex_p = Repeat) \<or> isclose 1 0
              \<longrightarrow> particle_loop ex_rt ex_oob ex_fs1 ex_pt1 10 1 1 ex_p = Some p'"
    by auto
  from 2 v have "getattr p' ''lon'' = getattr ex_p ''lon''" by auto
  with 1 3 4 5 v g have "loop_body ex_rt ex_oob ex_fs1 ex_pt1 10 1 1 ex_p = (p', d, True)
         \<and> getattr p' ''lon'' = Num 0 \<and> time p' = 0 \<and> state p' = ErrorOutOfBounds
         \<and> particle_loop ex_rt ex_oob ex_fs1 ex_pt1 10 1 1 ex_p = Some p'"
    by simp
  then show ?thesis using invoke_oob v by blast
qed

theorem raised_condition_sets_error_state_witness:
  "call ex_rt ex_oob (ex_p\<lparr>dt := np_sign 1 * 1\<rparr>) ex_fs1 (time ex_p)
     = (ex_p\<lparr>dt := 1, time := 7, vars := (vars ex_p)(''lon'' := 99)\<rparr>, Raise (FieldOutOfBoundError ''lon''))
   \<and> state ex_p = Evaluate
   \<and> (\<exists>p' d. loop_body ex_rt ex_oob ex_fs1 ex_pt1 10 1 1 ex_p = (p', d, True)
         \<and> exception p' = Some (FieldOutOfBoundError ''lon'') \<and> state p' = ErrorOutOfBounds
         \<and> particle_loop ex_rt ex_oob ex_fs1 ex_pt1 10 1 1 ex_p = Some p')"
proof -
  have v: "state ex_p = Evaluate" by (simp add: ex_p_def)
  from raised_condition_sets_error_state [OF call_oob, of ex_pt1 10]
  obtain p' d where
    1: "loop_body ex_rt ex_oob ex_fs1 ex_pt1 10 1 1 ex_p = (p', d, True)"
    and 2: "exception p' = Some (FieldOutOfBoundError ''lon'')"
    and 3: "\<forall>m. FieldOutOfBoundError ''lon'' = FieldOutOfBoundError m \<longrightarrow> state p' = ErrorOutOfBounds"
    and 4: "(state ex_p = Evaluate \<or> state ex_p = Repeat) \<or> isclose 1 0
              \<longrightarrow> particle_loop ex_rt ex_oob ex_fs1 ex_pt1 10 1 1 ex_p = Some p'"
    by auto
  from 3 have "state p' = ErrorOutOfBounds" by simp
  with 1 2 4 v have "loop_body ex_rt ex_oob ex_fs1 ex_pt1 10 1 1 ex_p = (p', d, True)
         \<and> exception p' = Some (FieldOutOfBoundError ''lon'') \<and> state p' = ErrorOutOfBounds
         \<and> particle_loop ex_rt ex_oob ex_fs1 ex_pt1 10 1 1 ex_p = Some p'"
    by simp
  then show ?thesis using call_oob v by blast
qed

lemma np_sign_0: "np_sign 0 = 0"
  by (simp add: np_sign_def)

lemma isclose_0_0: "isclose 0 0"
  by (simp add: isclose_def)

lemma invoke_Success_dt:
  "invoke R f fs d p = (p1, Success) \<Longrightarrow> isclose (dt p1) d"
  by (auto simp: invoke_def Let_def exception_code_failed split: prod.splits call_result.splits if_splits)

lemma loop_body_dt0_done:
  assumes "invoke R f fs 0 p = (p1, res)" and "res = Success \<or> res = Delete"
  shows "\<exists>d. loop_body R f fs pt endtime 0 dt_pos p
           = ((update_next_dt R (p1\<lparr>time := time p1 + dt p1\<rparr>))\<lparr>state := res\<rparr>, d, True)"
proof -
  let ?p3 = "update_next_dt R (p1\<lparr>time := time p1 + dt p1\<rparr>)"
  have "\<not> (\<not> isclose (min \<bar>dt ?p3\<bar> \<bar>endtime - time ?p3\<bar>) 0 \<and> np_sign (endtime - time ?p3) = 0)"
    by (auto simp: np_sign_def isclose_def split: if_splits)
  then show ?thesis
    using assms by (auto simp: loop_body_def Let_def np_sign_0 isclose_0_0)
qed

lemma loop_body_dt0_failed:
  assumes "invoke R f fs 0 p = (p1, res)" and "res \<noteq> Success" and "res \<noteq> Delete"
  shows "\<exists>d. loop_body R f fs pt endtime 0 dt_pos p
           = (restore_vars (backup_vars p (variables pt) Map.empty) (variables pt) (p1\<lparr>state := res\<rparr>), d, True)"
  using loop_body_failed [of R f fs 0 dt_pos p p1 res pt endtime] assms by (simp add: np_sign_0)

lemma loop_body_dt0_break:
  "\<exists>p' d. loop_body R f fs pt endtime 0 dt_pos p = (p', d, True)"
proof -
  obtain p1 res where i: "invoke R f fs 0 p = (p1, res)" by (cases "invoke R f fs 0 p")
  show ?thesis
  proof (cases "res = Success \<or> res = Delete")
    case True
    from loop_body_dt0_done [OF i True] show ?thesis by blast
  next
    case False
    then have "res \<noteq> Success" "res \<noteq> Delete" by simp_all
    from loop_body_dt0_failed [OF i this] show ?thesis by blast
  qed
qed

lemma execute_particle_dt0:
  "execute_particle R f fs endtime 0 p
     = Some (fst (loop_body R f fs (getPType p) endtime 0 (min \<bar>dt p\<bar> \<bar>endtime - time p\<bar>) p))"
proof -
  obtain p' d where lb: "loop_body R f fs (getPType p) endtime 0 (min \<bar>dt p\<bar> \<bar>endtime - time p\<bar>) p = (p', d, True)"
    using loop_body_dt0_break by blast
  have "particle_loop R f fs (getPType p) endtime 0 (min \<bar>dt p\<bar> \<bar>endtime - time p\<bar>) p = Some p'"
    by (subst particle_loop.simps) (simp add: lb isclose_0_0)
  then show ?thesis by (simp add: execute_particle_def Let_def isclose_0_0 lb)
qed

lemma execute_subfield_dt0:
  "execute_subfield R f fs endtime 0 sub
     = Some (map (\<lambda>p. fst (loop_body R f fs (getPType p) endtime 0 (min \<bar>dt p\<bar> \<bar>endtime - time p\<bar>) p)) sub)"
  by (induction sub) (simp_all add: execute_particle_dt0)

lemma execute_subfields_dt0:
  "execute_subfields R f fs endtime 0 subs
     = Some (map (map (\<lambda>p. fst (loop_body R f fs (getPType p) endtime 0 (min \<bar>dt p\<bar> \<bar>endtime - time p\<bar>) p))) subs)"
  by (induction subs) (simp_all add: execute_subfield_dt0)

text \<open>
  C6, as amended.  With \<open>dt = 0\<close> the interpreted pass ends, and it runs the loop body,
  hence the kernel, exactly once for every particle, whatever the state of the particle.
  The particle is then in the state that is the outcome of this invocation, which can be
  any state.  After \<^verbatim>\<open>Success\<close> or \<^verbatim>\<open>Delete\<close> the time is the time that the kernel left
  plus the step that the kernel left (for \<^verbatim>\<open>Success\<close> a step of at most \<open>10\<^sup>-\<^sup>8\<close>), so it is
  the time before the pass when the kernel changes neither; after any other outcome it
  is the time before the pass, when the time is a variable of the particle type.
\<close>

theorem dt_zero_single_invocation:
  "execute_python R k ps endtime 0
     = Some (ps\<lparr>particles_a :=
          map (map (\<lambda>p. fst (loop_body R (pyfunc k) (pset_fieldset ps) (getPType p) endtime 0
                               (min \<bar>dt p\<bar> \<bar>endtime - time p\<bar>) p))) (particles_a ps)\<rparr>)
   \<and> (\<exists>p1 res p'. invoke R f fs 0 p = (p1, res)
         \<and> execute_particle R f fs endtime 0 p = Some p'
         \<and> p' = fst (loop_body R f fs (getPType p) endtime 0 (min \<bar>dt p\<bar> \<bar>endtime - time p\<bar>) p)
         \<and> state p' = res
         \<and> (res = Success \<or> res = Delete \<longrightarrow> time p' = time p1 + dt p1)
         \<and> (res = Success \<longrightarrow> \<bar>dt p1\<bar> \<le> 1 / 100000000)
         \<and> ((res = Success \<or> res = Delete) \<and> time p1 = time p \<and> dt p1 = 0 \<longrightarrow> time p' = time p)
         \<and> (res \<noteq> Success \<and> res \<noteq> Delete \<and> ''time'' \<in> set (variables (getPType p))
              \<longrightarrow> time p' = time p))"
proof
  show "execute_python R k ps endtime 0
     = Some (ps\<lparr>particles_a :=
          map (map (\<lambda>p. fst (loop_body R (pyfunc k) (pset_fieldset ps) (getPType p) endtime 0
                               (min \<bar>dt p\<bar> \<bar>endtime - time p\<bar>) p))) (particles_a ps)\<rparr>)"
    by (simp add: execute_python_def execute_subfields_dt0)
next
  let ?dp = "min \<bar>dt p\<bar> \<bar>endtime - time p\<bar>"
  let ?pt = "getPType p"
  obtain p1 res where i: "invoke R f fs 0 p = (p1, res)" by (cases "invoke R f fs 0 p")
  let ?p' = "fst (loop_body R f fs ?pt endtime 0 ?dp p)"
  have e: "execute_particle R f fs endtime 0 p = Some ?p'" by (rule execute_particle_dt0)
  have sm: "res = Success \<longrightarrow> \<bar>dt p1\<bar> \<le> 1 / 100000000"
    using invoke_Success_dt [of R f fs 0 p p1] i by (auto simp: isclose_def)
  show "\<exists>p1 res p'. invoke R f fs 0 p = (p1, res)
         \<and> execute_particle R f fs endtime 0 p = Some p'
         \<and> p' = fst (loop_body R f fs (getPType p) endtime 0 (min \<bar>dt p\<bar> \<bar>endtime - time p\<bar>) p)
         \<and> state p' = res
         \<and> (res = Success \<or> res = Delete \<longrightarrow> time p' = time p1 + dt p1)
         \<and> (res = Success \<longrightarrow> \<bar>dt p1\<bar> \<le> 1 / 100000000)
         \<and> ((res = Success \<or> res = Delete) \<and> time p1 = time p \<and> dt p1 = 0 \<longrightarrow> time p' = time p)
         \<and> (res \<noteq> Success \<and> res \<noteq> Delete \<and> ''time'' \<in> set (variables (getPType p))
              \<longrightarrow> time p' = time p)"
  proof (cases "res = Success \<or> res = Delete")
    case True
    from loop_body_dt0_done [OF i True, of ?pt endtime ?dp]
    have p': "?p' = (update_next_dt R (p1\<lparr>time := time p1 + dt p1\<rparr>))\<lparr>state := res\<rparr>" by auto
    have "state ?p' = res" "time ?p' = time p1 + dt p1"
      by (simp_all add: p' update_next_dt_def)
    with i e sm True show ?thesis by auto
  next
    case False
    then have ne: "res \<noteq> Success" "res \<noteq> Delete" by simp_all
    from loop_body_dt0_failed [OF i ne, of ?pt endtime ?dp]
    have p': "?p' = restore_vars (backup_vars p (variables ?pt) Map.empty) (variables ?pt) (p1\<lparr>state := res\<rparr>)"
      by auto
    have st: "state ?p' = res" by (simp add: p' restore_vars_keeps)
    have tm: "''time'' \<in> set (variables ?pt) \<longrightarrow> time ?p' = time p"
    proof
      assume "''time'' \<in> set (variables ?pt)"
      then have "getattr ?p' ''time'' = getattr p ''time''" by (simp add: p' rollback_getattr)
      then show "time ?p' = time p" by (simp add: getattr_def)
    qed
    from i e st tm ne show ?thesis by auto
  qed
qed

lemma invoke_nop: "invoke ex_rt ex_nop ex_fs1 0 ex_p = (ex_p\<lparr>dt := 0\<rparr>, Success)"
  by (simp add: invoke_def Let_def ex_rt_def ex_call_def ex_nop_def ex_p_def isclose_def)

lemma invoke_del: "invoke ex_rt ex_del ex_fs1 0 ex_p = (ex_p\<lparr>dt := 0, state := Delete\<rparr>, Delete)"
  by (simp add: invoke_def Let_def ex_rt_def ex_call_def ex_del_def ex_p_def delete_def)

lemma invoke_rep: "invoke ex_rt ex_rep ex_fs1 0 ex_p = (ex_p\<lparr>dt := 0\<rparr>, Repeat)"
  by (simp add: invoke_def Let_def ex_rt_def ex_call_def ex_rep_def ex_p_def)

theorem dt_zero_single_invocation_witness:
  "execute_python ex_rt ex_kA ex_ps 10 0 \<noteq> None
   \<and> invoke ex_rt ex_nop ex_fs1 0 ex_p = (ex_p\<lparr>dt := 0\<rparr>, Success)
   \<and> time (ex_p\<lparr>dt := 0\<rparr>) = time ex_p \<and> dt (ex_p\<lparr>dt := 0\<rparr>) = 0
   \<and> map_option state (execute_particle ex_rt ex_nop ex_fs1 10 0 ex_p) = Some Success
   \<and> map_option time (execute_particle ex_rt ex_nop ex_fs1 10 0 ex_p) = Some (time ex_p)"
proof -
  note t = dt_zero_single_invocation [of ex_rt ex_kA ex_ps 10 ex_nop ex_fs1 ex_p]
  from t have 1: "execute_python ex_rt ex_kA ex_ps 10 0 \<noteq> None" by simp
  from t obtain p1 res p' where
    i: "invoke ex_rt ex_nop ex_fs1 0 ex_p = (p1, res)"
    and e: "execute_particle ex_rt ex_nop ex_fs1 10 0 ex_p = Some p'"
    and s: "state p' = res"
    and tm: "(res = Success \<or> res = Delete) \<and> time p1 = time ex_p \<and> dt p1 = 0 \<longrightarrow> time p' = time ex_p"
    by blast
  from i have r: "p1 = ex_p\<lparr>dt := 0\<rparr>" "res = Success" by (simp_all add: invoke_nop)
  from r tm have "time p' = time ex_p" by simp
  with 1 e s r show ?thesis by (simp add: invoke_nop)
qed

section \<open>The recovery loop\<close>

lemma remove_at_local_indices:
  "remove_at (local_indices sub) sub = filter (\<lambda>p. state p \<noteq> Delete) sub"
proof -
  have "filter (\<lambda>(x, i). i \<notin> set (local_indices sub)) (zip sub [0..<length sub])
        = filter ((\<lambda>p. state p \<noteq> Delete) \<circ> fst) (zip sub [0..<length sub])"
    by (rule filter_cong) (auto simp: local_indices_def set_zip)
  then have "remove_at (local_indices sub) sub
        = filter (\<lambda>p. state p \<noteq> Delete) (map fst (zip sub [0..<length sub]))"
    by (simp add: remove_at_def filter_map [symmetric])
  then show ?thesis by simp
qed

lemma remove_deleted_filter:
  "remove_deleted ps = ps\<lparr>particles_a := map (filter (\<lambda>p. state p \<noteq> Delete)) (particles_a ps)\<rparr>"
  by (simp add: remove_deleted_def remove_at_local_indices)


lemma visit_Continue_not_stop:
  "visit R rmap fs p = Continue x \<Longrightarrow> state p \<noteq> StopExecution"
  by (auto simp: visit_def recover_particle_def is_error_particle_def)

lemma recover_subfield_Continue:
  "recover_subfield R rmap fs ps = Continue ps'
   \<Longrightarrow> list_all2 (\<lambda>q q'. visit R rmap fs q = Continue q') ps ps'"
  by (induction ps arbitrary: ps') (auto split: flow.splits)


lemma list_all2_left_witness:
  "list_all2 P xs ys \<Longrightarrow> x \<in> set xs \<Longrightarrow> \<exists>y. P x y"
  by (induction rule: list_all2_induct) auto

lemma recover_subfield_stop_not_Continue:
  "p \<in> set ps \<Longrightarrow> state p = StopExecution \<Longrightarrow> recover_subfield R rmap fs ps \<noteq> Continue ps'"
proof
  assume a: "p \<in> set ps" "state p = StopExecution" "recover_subfield R rmap fs ps = Continue ps'"
  from list_all2_left_witness [OF recover_subfield_Continue [OF a(3)] a(1)]
  obtain q' where "visit R rmap fs p = Continue q'" by blast
  with a(2) show False by (simp add: visit_Continue_not_stop)
qed

lemma recover_subfields_Continue:
  "recover_subfields R rmap fs pss = Continue pss'
   \<Longrightarrow> list_all2 (list_all2 (\<lambda>q q'. visit R rmap fs q = Continue q')) pss pss'"
  by (induction pss arbitrary: pss') (auto split: flow.splits dest: recover_subfield_Continue)


lemma list_all2_lengths:
  "list_all2 (list_all2 P) xss yss \<Longrightarrow> map length yss = map length xss"
  by (induction rule: list_all2_induct) (auto dest: list_all2_lengthD)










lemma visit_q: "visit ex_rt ex_rmap ex_fs1 ex_q = Continue (ex_q\<lparr>state := Delete\<rparr>)"
  by (simp add: visit_def is_error_particle_def recover_particle_def ex_q_def ex_rmap_def
      ex_rt_def ex_call_def ex_del_def delete_def isComputed_def Let_def)




lemma visit_recovery:
  assumes "is_error_particle p" and "state p \<noteq> StopExecution" and "state p \<noteq> Repeat"
    and "rmap (state p) = Some rk"
    and "call R rk (p\<lparr>state := Success\<rparr>) fs (time p) = (p2, Return r)"
  shows "visit R rmap fs p = Continue (if isComputed p2 then p2\<lparr>state := Evaluate\<rparr> else p2)"
  using assms by (simp add: visit_def recover_particle_def Let_def reset_state_def)

lemma execute_particle_pending:
  assumes "is_error_particle q" and "state q \<noteq> Repeat" and "\<not> isclose dt0 0"
    and "\<bar>time q\<bar> < \<bar>endtime\<bar>"
  shows "execute_particle R f fs endtime dt0 q = Some q"
proof -
  have c: "\<not> ((state q = Evaluate \<or> state q = Repeat) \<or> isclose dt0 0)"
    using assms by (simp add: is_error_particle_def)
  have "particle_loop R f fs pt endtime dt0 d q = Some q" for pt d
    by (subst particle_loop.simps) (simp only: c if_False)
  then show ?thesis using assms(4) by (simp add: execute_particle_def Let_def)
qed

text \<open>
  C4, as amended.  For an error particle whose state has an entry in the recovery map (and
  is neither \<^verbatim>\<open>StopExecution\<close> nor \<^verbatim>\<open>Repeat\<close>), the state is set to \<^verbatim>\<open>Success\<close> and the
  mapped kernel is called with the particle, the field set of the kernel and the time of
  the particle.  If \<^verbatim>\<open>isComputed\<close> holds afterwards, the state is reset to \<^verbatim>\<open>Evaluate\<close>;
  otherwise the particle is left exactly as the recovery kernel left it.  The \<^verbatim>\<open>for\<close> loop
  does this to every error particle when it runs through.  What happens to a particle
  that was left as it is depends on its state: \<^verbatim>\<open>remove_deleted\<close> takes exactly the
  particles in state \<^verbatim>\<open>Delete\<close> out of the population, and the next interpreted pass
  leaves a particle untouched, so that it is an error particle again, when its state is
  none of \<^verbatim>\<open>Success\<close>, \<^verbatim>\<open>Evaluate\<close> and \<^verbatim>\<open>Repeat\<close>, \<open>dt\<close> is not close to \<open>0\<close> and its time
  is below the end time in absolute value.
\<close>

theorem recovery_kernel_step:
  "(is_error_particle p \<and> state p \<noteq> StopExecution \<and> state p \<noteq> Repeat
      \<and> rmap (state p) = Some rk
      \<and> call R rk (p\<lparr>state := Success\<rparr>) fs (time p) = (p2, Return r)
     \<longrightarrow> visit R rmap fs p = Continue (if isComputed p2 then p2\<lparr>state := Evaluate\<rparr> else p2))
   \<and> (recover_subfields R rmap fs pss = Continue pss'
        \<longrightarrow> list_all2 (list_all2 (\<lambda>q q'. visit R rmap fs q = Continue q')) pss pss')
   \<and> particles_a (remove_deleted ps) = map (filter (\<lambda>q. state q \<noteq> Delete)) (particles_a ps)
   \<and> (is_error_particle q \<and> state q \<noteq> Repeat \<and> \<not> isclose dt0 0 \<and> \<bar>time q\<bar> < \<bar>endtime\<bar>
        \<longrightarrow> execute_particle R f fs' endtime dt0 q = Some q)"
  by (auto simp: visit_recovery recover_subfields_Continue remove_deleted_filter
      execute_particle_pending simp del: visit_def)

lemma execute_python_empty:
  "execute_python R k (ps\<lparr>particles_a := [[]]\<rparr>) endtime dt0 = Some (ps\<lparr>particles_a := [[]]\<rparr>)"
  by (simp add: execute_python_def)

lemma recovery_loop_Continue:
  assumes "error_particles ps \<noteq> []"
    and "recover_subfields R rmap (fieldset k) (particles_a ps) = Continue pss"
    and "engine R k (remove_deleted (ps\<lparr>particles_a := pss\<rparr>)) endtime dt0 = Some (Inr ps')"
  shows "recovery_loop R k rmap endtime dt0 ps = recovery_loop R k rmap endtime dt0 ps'"
  using assms by (subst recovery_loop.simps) simp

lemma recovery_loop_delete:
  "recovery_loop ex_rt ex_kA ex_rmap 10 1 (ex_ps\<lparr>particles_a := [[ex_q]]\<rparr>)
     = Some (Inr (ex_ps\<lparr>particles_a := [[]]\<rparr>))"
proof -
  have e: "error_particles (ex_ps\<lparr>particles_a := [[ex_q]]\<rparr>) \<noteq> []"
    by (simp add: error_particles_def is_error_particle_def ex_q_def)
  have f: "fieldset ex_kA = ex_fs1" "\<not> uses_jit (ptype ex_kA)" by (simp_all add: ex_kA_def ex_pt1_def)
  have r: "recover_subfields ex_rt ex_rmap (fieldset ex_kA) (particles_a (ex_ps\<lparr>particles_a := [[ex_q]]\<rparr>))
             = Continue [[ex_q\<lparr>state := Delete\<rparr>]]"
    by (simp add: f visit_q)
  have d: "remove_deleted (ex_ps\<lparr>particles_a := [[ex_q]], particles_a := [[ex_q\<lparr>state := Delete\<rparr>]]\<rparr>)
             = ex_ps\<lparr>particles_a := [[]]\<rparr>"
    by (simp add: remove_deleted_filter)
  have g: "engine ex_rt ex_kA (remove_deleted (ex_ps\<lparr>particles_a := [[ex_q]], particles_a := [[ex_q\<lparr>state := Delete\<rparr>]]\<rparr>)) 10 1
             = Some (Inr (ex_ps\<lparr>particles_a := [[]]\<rparr>))"
    by (simp only: d) (simp add: engine_def f execute_python_empty)
  have l: "recovery_loop ex_rt ex_kA ex_rmap 10 1 (ex_ps\<lparr>particles_a := [[]]\<rparr>)
             = Some (Inr (ex_ps\<lparr>particles_a := [[]]\<rparr>))"
    by (subst recovery_loop.simps) (simp add: error_particles_def)
  from recovery_loop_Continue [OF e r g] l show ?thesis by simp
qed

text \<open>
  C4, as stated, fails in its last part.  The recovery kernel of the example deletes the
  particle, so the particle is not reset to \<^verbatim>\<open>Evaluate\<close>; but it does not stay in the set
  of error particles for a further recovery pass: it is removed, the set of error
  particles is empty, and \<^verbatim>\<open>execute\<close> returns with an empty population.
\<close>

theorem recovery_pending_counterexample:
  "is_error_particle ex_q \<and> ex_rmap (state ex_q) = Some ex_del
   \<and> visit ex_rt ex_rmap ex_fs1 ex_q = Continue (ex_q\<lparr>state := Delete\<rparr>)
   \<and> \<not> isComputed (ex_q\<lparr>state := Delete\<rparr>)
   \<and> error_particles (remove_deleted (ex_ps\<lparr>particles_a := [[ex_q\<lparr>state := Delete\<rparr>]]\<rparr>)) = []
   \<and> recovery_loop ex_rt ex_kA ex_rmap 10 1 (ex_ps\<lparr>particles_a := [[ex_q]]\<rparr>)
        = Some (Inr (ex_ps\<lparr>particles_a := [[]]\<rparr>))"
proof -
  have "is_error_particle ex_q" "ex_rmap (state ex_q) = Some ex_del"
    "\<not> isComputed (ex_q\<lparr>state := Delete\<rparr>)"
    by (simp_all add: is_error_particle_def ex_q_def ex_rmap_def isComputed_def)
  moreover have "error_particles (remove_deleted (ex_ps\<lparr>particles_a := [[ex_q\<lparr>state := Delete\<rparr>]]\<rparr>)) = []"
    by (simp add: remove_deleted_filter error_particles_def)
  ultimately show ?thesis using visit_q recovery_loop_delete by simp
qed

theorem recovery_kernel_step_witness:
  "is_error_particle ex_q \<and> state ex_q \<noteq> StopExecution \<and> state ex_q \<noteq> Repeat
   \<and> [ErrorOutOfBounds \<mapsto> ex_back] (state ex_q) = Some ex_back
   \<and> call ex_rt ex_back (ex_q\<lparr>state := Success\<rparr>) ex_fs1 (time ex_q)
        = (ex_q\<lparr>state := Success, vars := (vars ex_q)(''lon'' := 0)\<rparr>, Return None)
   \<and> isComputed (ex_q\<lparr>state := Success, vars := (vars ex_q)(''lon'' := 0)\<rparr>)
   \<and> visit ex_rt [ErrorOutOfBounds \<mapsto> ex_back] ex_fs1 ex_q
        = Continue (ex_q\<lparr>state := Evaluate, vars := (vars ex_q)(''lon'' := 0)\<rparr>)
   \<and> \<not> isclose 1 0 \<and> \<bar>time ex_q\<bar> < \<bar>10\<bar>
   \<and> execute_particle ex_rt ex_nop ex_fs1 10 1 ex_q = Some ex_q"
proof -
  have h: "is_error_particle ex_q" "state ex_q \<noteq> StopExecution" "state ex_q \<noteq> Repeat"
    "[ErrorOutOfBounds \<mapsto> ex_back] (state ex_q) = Some ex_back"
    "\<not> isclose 1 0" "\<bar>time ex_q\<bar> < \<bar>10\<bar>"
    by (simp_all add: is_error_particle_def ex_q_def ex_p_def isclose_def)
  have c: "call ex_rt ex_back (ex_q\<lparr>state := Success\<rparr>) ex_fs1 (time ex_q)
        = (ex_q\<lparr>state := Success, vars := (vars ex_q)(''lon'' := 0)\<rparr>, Return None)"
    by (simp add: ex_rt_def ex_call_def ex_back_def)
  have i: "isComputed (ex_q\<lparr>state := Success, vars := (vars ex_q)(''lon'' := 0)\<rparr>)"
    by (simp add: isComputed_def)
  note t = recovery_kernel_step [where p = ex_q and rmap = "[ErrorOutOfBounds \<mapsto> ex_back]"
      and rk = ex_back and R = ex_rt and fs = ex_fs1 and r = None
      and ?p2.0 = "ex_q\<lparr>state := Success, vars := (vars ex_q)(''lon'' := 0)\<rparr>"
      and q = ex_q and ?dt0.0 = 1 and endtime = 10 and f = ex_nop and fs' = ex_fs1]
  from t h c i have v: "visit ex_rt [ErrorOutOfBounds \<mapsto> ex_back] ex_fs1 ex_q
        = Continue (ex_q\<lparr>state := Evaluate, vars := (vars ex_q)(''lon'' := 0)\<rparr>)"
    by simp
  from t h have e: "execute_particle ex_rt ex_nop ex_fs1 10 1 ex_q = Some ex_q"
    by blast
  show ?thesis using h c i v e by simp
qed

section \<open>A pass with a zero step that is repeated for ever\<close>

lemma invoke_rep_any:
  "state p = Evaluate \<Longrightarrow> invoke ex_rt ex_rep ex_fs1 0 p = (p\<lparr>dt := 0\<rparr>, Repeat)"
  by (simp add: invoke_def Let_def ex_rt_def ex_call_def ex_rep_def)

lemma restore_ex_p:
  "restore_vars (backup_vars (ex_p\<lparr>dt := d, state := s\<rparr>) (variables ex_pt1) Map.empty) (variables ex_pt1)
     (ex_p\<lparr>dt := 0, state := Repeat\<rparr>) = ex_p\<lparr>dt := 0, state := Repeat\<rparr>"
  by (simp add: restore_vars_def backup_vars_def restore_var_def getattr_def ex_pt1_def ex_p_def fun_eq_iff)

lemma pass_rep:
  assumes "s = Evaluate"
  shows "execute_particle ex_rt ex_rep ex_fs1 10 0 (ex_p\<lparr>dt := d, state := s\<rparr>)
           = Some (ex_p\<lparr>dt := 0, state := Repeat\<rparr>)"
proof -
  let ?p = "ex_p\<lparr>dt := d, state := s\<rparr>"
  have i: "invoke ex_rt ex_rep ex_fs1 0 ?p = (?p\<lparr>dt := 0\<rparr>, Repeat)"
    using assms by (simp add: invoke_rep_any)
  have pt: "getPType ?p = ex_pt1" by (simp add: ex_p_def)
  from loop_body_dt0_failed [OF i, of ex_pt1 10 "min \<bar>dt ?p\<bar> \<bar>10 - time ?p\<bar>"]
  have "fst (loop_body ex_rt ex_rep ex_fs1 ex_pt1 10 0 (min \<bar>dt ?p\<bar> \<bar>10 - time ?p\<bar>) ?p)
          = restore_vars (backup_vars ?p (variables ex_pt1) Map.empty) (variables ex_pt1)
              (?p\<lparr>dt := 0, state := Repeat\<rparr>)"
    by auto
  also have "\<dots> = ex_p\<lparr>dt := 0, state := Repeat\<rparr>"
    using restore_ex_p [where d = d and s = s] by simp
  finally show ?thesis by (simp only: execute_particle_dt0 pt)
qed

lemma engine_rep:
  "engine ex_rt ex_kR (ex_ps\<lparr>particles_a := [[ex_p\<lparr>dt := d, state := Evaluate\<rparr>]]\<rparr>) 10 0
     = Some (Inr ex_ps_rep)"
proof -
  have k: "\<not> uses_jit (ptype ex_kR)" "pyfunc ex_kR = ex_rep"
    by (simp_all add: ex_kR_def ex_kA_def ex_pt1_def)
  have f: "pset_fieldset (ex_ps\<lparr>particles_a := [[ex_p\<lparr>dt := d, state := Evaluate\<rparr>]]\<rparr>) = ex_fs1"
    by (simp add: ex_ps_def)
  show ?thesis
    by (simp add: engine_def k execute_python_def f pass_rep) (simp add: ex_ps_def ex_ps_rep_def)
qed

lemma recover_rep:
  "recover_subfields ex_rt rmap fs (particles_a ex_ps_rep) = Continue [[ex_p\<lparr>dt := 0, state := Evaluate\<rparr>]]"
  by (simp add: ex_ps_rep_def visit_def is_error_particle_def recover_particle_def reset_state_def)

lemma remove_rep:
  "remove_deleted (ex_ps_rep\<lparr>particles_a := [[ex_p\<lparr>dt := 0, state := Evaluate\<rparr>]]\<rparr>)
     = ex_ps\<lparr>particles_a := [[ex_p\<lparr>dt := 0, state := Evaluate\<rparr>]]\<rparr>"
  by (simp add: remove_deleted_filter ex_ps_rep_def ex_ps_def)

lemma recovery_loop_rep_step:
  assumes h: "recovery_loop R k rmap endtime d ps = Some y"
  shows "\<not> (R = ex_rt \<and> k = ex_kR \<and> endtime = 10 \<and> d = 0 \<and> ps = ex_ps_rep)"
proof (rule recovery_loop.raw_induct
    [where P = "\<lambda>R k rmap endtime d ps y. \<not> (R = ex_rt \<and> k = ex_kR \<and> endtime = 10 \<and> d = 0 \<and> ps = ex_ps_rep)",
      OF _ h], goal_cases)
  case (1 f R k rmap endtime d ps Ra)
  show ?case
  proof
    assume a: "R = ex_rt \<and> k = ex_kR \<and> endtime = 10 \<and> d = 0 \<and> ps = ex_ps_rep"
    have e: "error_particles ex_ps_rep \<noteq> []"
      by (simp add: error_particles_def ex_ps_rep_def is_error_particle_def)
    have r: "recover_subfields ex_rt rmap (fieldset ex_kR) (particles_a ex_ps_rep)
               = Continue [[ex_p\<lparr>dt := 0, state := Evaluate\<rparr>]]"
      by (rule recover_rep)
    from 1(2) a have "f ex_rt ex_kR rmap 10 0 ex_ps_rep = Some Ra"
      by (simp add: e r remove_rep engine_rep)
    from 1(1) [OF this] show False by simp
  qed
qed

lemma recovery_loop_rep: "recovery_loop ex_rt ex_kR rmap 10 0 ex_ps_rep = None"
proof (cases "recovery_loop ex_rt ex_kR rmap 10 0 ex_ps_rep")
  case None
  then show ?thesis .
next
  case (Some y)
  from recovery_loop_rep_step [OF Some] show ?thesis by simp
qed

lemma execute_rep: "execute ex_rt ex_kR ex_ps 10 0 None = None"
proof -
  have "ex_ps\<lparr>particles_a := map (map reset_state) (particles_a ex_ps)\<rparr>
          = ex_ps\<lparr>particles_a := [[ex_p\<lparr>dt := 1, state := Evaluate\<rparr>]]\<rparr>"
    by (simp add: ex_ps_def reset_state_def ex_p_def)
  moreover have "remove_deleted ex_ps_rep = ex_ps_rep"
    by (simp add: remove_deleted_filter ex_ps_rep_def)
  ultimately show ?thesis
    by (simp add: execute_def Let_def engine_rep recovery_loop_rep)
qed

text \<open>
  C6, as stated, fails: with \<open>dt = 0\<close> a kernel that deletes the particle leaves it in
  state \<^verbatim>\<open>Delete\<close>, and one that asks for a repetition leaves it in state \<^verbatim>\<open>Repeat\<close>;
  neither is \<^verbatim>\<open>Success\<close> or an error state.  With the latter kernel \<^verbatim>\<open>execute\<close> does
  not return: every recovery round resets the particle and the next forced pass asks for
  a repetition again.
\<close>

theorem dt_zero_state_counterexample:
  "map_option state (execute_particle ex_rt ex_del ex_fs1 10 0 ex_p) = Some Delete
   \<and> map_option state (execute_particle ex_rt ex_rep ex_fs1 10 0 ex_p) = Some Repeat
   \<and> Delete \<notin> {Success, Error, ErrorOutOfBounds, ErrorThroughSurface, ErrorTimeExtrapolation}
   \<and> Repeat \<notin> {Success, Error, ErrorOutOfBounds, ErrorThroughSurface, ErrorTimeExtrapolation}
   \<and> pyfunc ex_kR = ex_rep \<and> execute ex_rt ex_kR ex_ps 10 0 None = None"
proof -
  from loop_body_dt0_done [OF invoke_del, of ex_pt1 10 "min \<bar>dt ex_p\<bar> \<bar>10 - time ex_p\<bar>"]
  have "state (fst (loop_body ex_rt ex_del ex_fs1 ex_pt1 10 0 (min \<bar>dt ex_p\<bar> \<bar>10 - time ex_p\<bar>) ex_p)) = Delete"
    by auto
  then have 1: "map_option state (execute_particle ex_rt ex_del ex_fs1 10 0 ex_p) = Some Delete"
    by (simp add: execute_particle_dt0) (simp add: ex_p_def)
  from loop_body_dt0_failed [OF invoke_rep, of ex_pt1 10 "min \<bar>dt ex_p\<bar> \<bar>10 - time ex_p\<bar>"]
  have "state (fst (loop_body ex_rt ex_rep ex_fs1 ex_pt1 10 0 (min \<bar>dt ex_p\<bar> \<bar>10 - time ex_p\<bar>) ex_p)) = Repeat"
    by (auto simp: restore_vars_keeps)
  then have 2: "map_option state (execute_particle ex_rt ex_rep ex_fs1 10 0 ex_p) = Some Repeat"
    by (simp add: execute_particle_dt0) (simp add: ex_p_def)
  have 3: "pyfunc ex_kR = ex_rep" by (simp add: ex_kR_def)
  show ?thesis using 1 2 3 execute_rep by simp
qed


end
